theory Spec2Isabelle
  imports Main
begin

section \<open>Python strings and integers\<close>

text \<open>
  A Python \<open>str\<close> is modelled as a \<open>string\<close> holding its UTF-8 bytes, so that
  \<open>encode('utf-8')\<close> is the identity and the non-ASCII markers that SOLAR_GUI.py writes into
  its log are byte sequences.  Searching for an ASCII pattern gives the same answer on the
  bytes as on the code points.
\<close>

definition startswith :: "string \<Rightarrow> string \<Rightarrow> bool" where
  "startswith s p = (take (length p) s = p)"

text \<open>\<open>p in s\<close>: the pattern occurs at some position.\<close>

fun contains :: "string \<Rightarrow> string \<Rightarrow> bool" where
  "contains [] p = (p = [])"
| "contains (c # cs) p = (if startswith (c # cs) p then True else contains cs p)"

text \<open>\<open>s.split(sep)\<close> for a one-character separator: every occurrence splits.\<close>

fun py_split :: "char \<Rightarrow> string \<Rightarrow> string list" where
  "py_split sep [] = [[]]"
| "py_split sep (c # cs) =
     (if c = sep then [] # py_split sep cs
      else (case py_split sep cs of
              [] \<Rightarrow> [[c]]
            | w # ws \<Rightarrow> (c # w) # ws))"

text \<open>\<open>s.split(sep, 1)\<close>: only the first occurrence splits.\<close>

fun py_split1 :: "char \<Rightarrow> string \<Rightarrow> string list" where
  "py_split1 sep [] = [[]]"
| "py_split1 sep (c # cs) =
     (if c = sep then [[], cs]
      else (case py_split1 sep cs of
              [] \<Rightarrow> [[c]]
            | w # ws \<Rightarrow> (c # w) # ws))"

datatype error = ValueError | TclError | IndexError | PortError string

text \<open>\<open>xs[i]\<close> for \<open>i \<ge> 0\<close>: out of range raises IndexError.\<close>

definition py_getitem :: "'a list \<Rightarrow> nat \<Rightarrow> error + 'a" where
  "py_getitem xs i = (if i < length xs then Inr (xs ! i) else Inl IndexError)"

definition is_digit :: "char \<Rightarrow> bool" where
  "is_digit c = (48 \<le> (of_char c :: nat) \<and> (of_char c :: nat) \<le> 57)"

definition digit_val :: "char \<Rightarrow> nat" where
  "digit_val c = of_char c - 48"

definition digit_char :: "nat \<Rightarrow> char" where
  "digit_char d = char_of (48 + d)"

text \<open>
  The characters that \<open>int()\<close> skips before and after a literal: tab, line feed,
  vertical tab, form feed, carriage return and the space.  The separators 0x1C to 0x1F
  are not among them.
\<close>

definition is_space :: "char \<Rightarrow> bool" where
  "is_space c = ((9 \<le> (of_char c :: nat) \<and> (of_char c :: nat) \<le> 13) \<or> (of_char c :: nat) = 32)"

definition strip :: "string \<Rightarrow> string" where
  "strip s = rev (dropWhile is_space (rev (dropWhile is_space s)))"

text \<open>
  Before it reads a literal, \<open>int()\<close> replaces every character outside ASCII: a Unicode
  space becomes a space, a Unicode decimal digit its ASCII digit, and any other character
  makes the literal invalid.  \<open>unicode_zeros\<close> lists the digit zero of every run of ten
  decimal digits (Unicode 14.0, the database of CPython 3.11); \<open>unicode_space\<close> holds
  the spaces beyond ASCII.
\<close>

definition unicode_zeros :: "nat list" where
  "unicode_zeros =
     [0x30, 0x660, 0x6F0, 0x7C0, 0x966, 0x9E6, 0xA66, 0xAE6,
      0xB66, 0xBE6, 0xC66, 0xCE6, 0xD66, 0xDE6, 0xE50, 0xED0,
      0xF20, 0x1040, 0x1090, 0x17E0, 0x1810, 0x1946, 0x19D0, 0x1A80,
      0x1A90, 0x1B50, 0x1BB0, 0x1C40, 0x1C50, 0xA620, 0xA8D0, 0xA900,
      0xA9D0, 0xA9F0, 0xAA50, 0xABF0, 0xFF10, 0x104A0, 0x10D30, 0x11066,
      0x110F0, 0x11136, 0x111D0, 0x112F0, 0x11450, 0x114D0, 0x11650, 0x116C0,
      0x11730, 0x118E0, 0x11950, 0x11C50, 0x11D50, 0x11DA0, 0x16A60, 0x16AC0,
      0x16B50, 0x1D7CE, 0x1D7D8, 0x1D7E2, 0x1D7EC, 0x1D7F6, 0x1E140, 0x1E2F0,
      0x1E950, 0x1FBF0]"

definition unicode_decimal :: "nat \<Rightarrow> nat option" where
  "unicode_decimal cp =
     (case filter (\<lambda>z. z \<le> cp \<and> cp < z + 10) unicode_zeros of
        [] \<Rightarrow> None
      | z # zs \<Rightarrow> Some (cp - z))"

definition unicode_space :: "nat \<Rightarrow> bool" where
  "unicode_space cp =
     (cp = 0x85 \<or> cp = 0xA0 \<or> cp = 0x1680 \<or> (0x2000 \<le> cp \<and> cp \<le> 0x200A) \<or>
      cp = 0x2028 \<or> cp = 0x2029 \<or> cp = 0x202F \<or> cp = 0x205F \<or> cp = 0x3000)"

definition ascii_of_codepoint :: "nat \<Rightarrow> char option" where
  "ascii_of_codepoint cp =
     (if unicode_space cp then Some CHR '' ''
      else (case unicode_decimal cp of None \<Rightarrow> None | Some d \<Rightarrow> Some (char_of (48 + d))))"

text \<open>
  The replacement on UTF-8 text, one byte at a time: \<open>need\<close> counts the continuation
  bytes still to come and \<open>cp\<close> holds the bits of the character read so far.  The
  result is \<open>None\<close> when a character has no replacement (or the bytes are not UTF-8).
\<close>

fun to_ascii_acc :: "nat \<Rightarrow> nat \<Rightarrow> string \<Rightarrow> string option" where
  "to_ascii_acc need cp [] = (if need = 0 then Some [] else None)"
| "to_ascii_acc need cp (b # bs) =
     (if need = 0 then
        (if (of_char b :: nat) < 128 then map_option ((#) b) (to_ascii_acc 0 0 bs)
         else if 192 \<le> (of_char b :: nat) \<and> (of_char b :: nat) < 224
           then to_ascii_acc 1 (of_char b - 192) bs
         else if 224 \<le> (of_char b :: nat) \<and> (of_char b :: nat) < 240
           then to_ascii_acc 2 (of_char b - 224) bs
         else if 240 \<le> (of_char b :: nat) \<and> (of_char b :: nat) < 248
           then to_ascii_acc 3 (of_char b - 240) bs
         else None)
      else if 128 \<le> (of_char b :: nat) \<and> (of_char b :: nat) < 192 then
        (if need = 1 then
           (case ascii_of_codepoint (cp * 64 + (of_char b - 128)) of
              None \<Rightarrow> None
            | Some a \<Rightarrow> map_option ((#) a) (to_ascii_acc 0 0 bs))
         else to_ascii_acc (need - 1) (cp * 64 + (of_char b - 128)) bs)
      else None)"

definition to_ascii :: "string \<Rightarrow> string option" where
  "to_ascii s = to_ascii_acc 0 0 s"

text \<open>
  The default of \<open>sys.get_int_max_str_digits()\<close>: \<open>int()\<close> raises ValueError on a
  decimal literal with more digits.
\<close>

definition int_max_str_digits :: nat where
  "int_max_str_digits = 4300"

text \<open>
  The digits of a decimal literal as \<open>int()\<close> reads them: digits, with single underscores
  allowed between two digits.
\<close>

fun digits_acc :: "nat \<Rightarrow> string \<Rightarrow> nat option" where
  "digits_acc acc [] = Some acc"
| "digits_acc acc (c # cs) =
     (if is_digit c then digits_acc (10 * acc + digit_val c) cs
      else if c = CHR ''_'' then
        (case cs of
           [] \<Rightarrow> None
         | d # ds \<Rightarrow> if is_digit d then digits_acc (10 * acc + digit_val d) ds else None)
      else None)"

definition parse_nat :: "string \<Rightarrow> nat option" where
  "parse_nat s =
     (case s of
        [] \<Rightarrow> None
      | c # cs \<Rightarrow> if is_digit c then digits_acc (digit_val c) cs else None)"

text \<open>
  \<open>int(s)\<close> in base 10: the characters outside ASCII are replaced, the number of
  digits is checked against the limit, surrounding whitespace is dropped and one sign is
  allowed; anything else raises ValueError.
\<close>

definition py_int :: "string \<Rightarrow> error + int" where
  "py_int s =
     (case to_ascii s of
        None \<Rightarrow> Inl ValueError
      | Some a \<Rightarrow>
          if int_max_str_digits < length (filter is_digit a) then Inl ValueError
          else
            (case strip a of
               [] \<Rightarrow> Inl ValueError
             | c # cs \<Rightarrow>
                 if c = CHR ''-'' then
                   (case parse_nat cs of None \<Rightarrow> Inl ValueError | Some n \<Rightarrow> Inr (- int n))
                 else if c = CHR ''+'' then
                   (case parse_nat cs of None \<Rightarrow> Inl ValueError | Some n \<Rightarrow> Inr (int n))
                 else
                   (case parse_nat (c # cs) of None \<Rightarrow> Inl ValueError | Some n \<Rightarrow> Inr (int n))))"

text \<open>\<open>str(n)\<close> and \<open>f"{n}"\<close> for an integer.\<close>

function str_nat :: "nat \<Rightarrow> string" where
  "str_nat n = (if n < 10 then [digit_char n] else str_nat (n div 10) @ [digit_char (n mod 10)])"
  by pat_completeness auto
termination
  by (relation "measure id") auto

declare str_nat.simps [simp del]

definition str_int :: "int \<Rightarrow> string" where
  "str_int i = (if i < 0 then CHR ''-'' # str_nat (nat (- i)) else str_nat (nat i))"

text \<open>\<open>f"{i:03d}"\<close>: zero padding to width three, the sign counted in the width.\<close>

definition fmt_03d :: "int \<Rightarrow> string" where
  "fmt_03d i =
     (if i < 0 then CHR ''-'' # replicate (2 - length (str_nat (nat (- i)))) CHR ''0'' @ str_nat (nat (- i))
      else replicate (3 - length (str_nat (nat i))) CHR ''0'' @ str_nat (nat i))"

text \<open>
  The wall clock: \<open>datetime.now()\<close> read as hours, minutes and seconds, and
  \<open>strftime("%H:%M:%S")\<close> on it.
\<close>

type_synonym hms = "nat \<times> nat \<times> nat"

definition pad2 :: "nat \<Rightarrow> string" where
  "pad2 n = (if n < 10 then CHR ''0'' # str_nat n else str_nat n)"

definition strftime_HMS :: "hms \<Rightarrow> string" where
  "strftime_HMS t = (case t of (h, m, s) \<Rightarrow> pad2 h @ '':'' @ pad2 m @ '':'' @ pad2 s)"

section \<open>The serial port and the toolkit\<close>

text \<open>
  A \<open>serial.Serial\<close> object: whether it is open, the payload of every \<open>write\<close> so far, and
  what the operating system will answer next.  \<open>write_error p = Some msg\<close> means that
  \<open>write\<close> raises an exception \<open>e\<close> with \<open>str(e) = msg\<close>; \<open>close_error\<close> likewise
  for \<open>close\<close>.
\<close>

record port =
  is_open :: bool
  written :: "string list"
  write_error :: "string option"
  close_error :: "string option"

definition port_write :: "port \<Rightarrow> string \<Rightarrow> string + port" where
  "port_write p data =
     (case write_error p of
        Some msg \<Rightarrow> Inl msg
      | None \<Rightarrow> Inr (p\<lparr>written := written p @ [data]\<rparr>))"

definition port_close :: "port \<Rightarrow> string + port" where
  "port_close p =
     (case close_error p of
        Some msg \<Rightarrow> Inl msg
      | None \<Rightarrow> Inr (p\<lparr>is_open := False\<rparr>))"

text \<open>
  A \<open>tk.IntVar\<close> bound to an entry the user can type into: \<open>Some n\<close> when its text reads
  as the integer \<open>n\<close>, \<open>None\<close> when \<open>get()\<close> raises TclError.
\<close>

type_synonym IntVar = "int option"

definition IntVar_get :: "IntVar \<Rightarrow> error + int" where
  "IntVar_get v = (case v of None \<Rightarrow> Inl TclError | Some n \<Rightarrow> Inr n)"

text \<open>The calls of \<open>tkinter.messagebox\<close>, with title and message.\<close>

datatype dialog = ShowError string string | ShowWarning string string

definition newline :: string where
  "newline = [CHR 0x0A]"

section \<open>SOLAR_GUI.py: class SOLARGUI\<close>

text \<open>The non-ASCII markers of the log, as UTF-8.\<close>

definition mark_arrow :: string where
  "mark_arrow = [CHR 0xE2, CHR 0x86, CHR 0x92]"

definition mark_cross :: string where
  "mark_cross = [CHR 0xE2, CHR 0x9D, CHR 0x8C]"

definition mark_check :: string where
  "mark_check = [CHR 0xE2, CHR 0x9C, CHR 0x93]"

definition mark_siren :: string where
  "mark_siren = [CHR 0xF0, CHR 0x9F, CHR 0x9A, CHR 0xA8]"

definition mark_plug :: string where
  "mark_plug = [CHR 0xF0, CHR 0x9F, CHR 0x94, CHR 0x8C]"

datatype v1_callback = Update_device_lists

text \<open>
  The attributes of a SOLARGUI object that the serial protocol reads or writes.
  \<open>v1_log_text\<close> holds the strings inserted into the log widget, \<open>v1_after\<close> the callbacks
  handed to \<open>root.after\<close> with their delay, \<open>v1_reported\<close> the exceptions that left a
  callback and were reported by the toolkit, and \<open>v1_clock\<close> what \<open>datetime.now()\<close>
  answers at its n-th call.
\<close>

record SOLARGUI =
  v1_serial_port :: "port option"
  v1_is_connected :: bool
  v1_total_devices :: int
  v1_system_state :: string
  v1_ina226_status :: string
  v1_device_count_label :: string
  v1_state_label :: string
  v1_ina226_label :: string
  v1_filter_debug_var :: bool
  v1_log_text :: "string list"
  v1_servo_target_var :: string
  v1_servo_device_var :: string
  v1_servo_angle_var :: IntVar
  v1_connect_btn :: string
  v1_connection_status :: "string \<times> string"
  v1_port_combo_state :: string
  v1_dialogs :: "dialog list"
  v1_after :: "(nat \<times> v1_callback) list"
  v1_reported :: "error list"
  v1_clock :: "nat \<Rightarrow> hms"
  v1_ticks :: nat

definition v1_log_message :: "string \<Rightarrow> SOLARGUI \<Rightarrow> SOLARGUI" where
  "v1_log_message message st =
     (let timestamp = strftime_HMS (v1_clock st (v1_ticks st))
      in st\<lparr>v1_log_text := v1_log_text st @ [''['' @ timestamp @ ''] '' @ message @ newline],
             v1_ticks := Suc (v1_ticks st)\<rparr>)"

definition v1_send_command :: "string \<Rightarrow> SOLARGUI \<Rightarrow> SOLARGUI" where
  "v1_send_command command st =
     (case v1_serial_port st of
        Some p \<Rightarrow>
          if v1_is_connected st then
            (case port_write p (command @ newline) of
               Inr p' \<Rightarrow> v1_log_message (mark_arrow @ '' '' @ command) (st\<lparr>v1_serial_port := Some p'\<rparr>)
             | Inl msg \<Rightarrow> v1_log_message (mark_cross @ '' Send error: '' @ msg) st)
          else st\<lparr>v1_dialogs := v1_dialogs st @ [ShowError ''Error'' ''Not connected to device'']\<rparr>
      | None \<Rightarrow> st\<lparr>v1_dialogs := v1_dialogs st @ [ShowError ''Error'' ''Not connected to device'']\<rparr>)"

definition v1_get_current_status :: "SOLARGUI \<Rightarrow> SOLARGUI" where
  "v1_get_current_status st = v1_send_command ''current'' st"


definition is_detail_line :: "string \<Rightarrow> bool" where
  "is_detail_line data =
     (startswith data ''Target Current:'' \<or> startswith data ''Measured Current:'' \<or>
      startswith data ''Bus Voltage:'' \<or> startswith data ''Shunt Voltage:'' \<or>
      startswith data ''Power:'' \<or> startswith data ''DAC Value:'' \<or>
      startswith data ''DAC Voltage:'' \<or> startswith data ''Control State:'')"

definition v1_process_serial_data :: "string \<Rightarrow> SOLARGUI \<Rightarrow> error + SOLARGUI" where
  "v1_process_serial_data data st =
     (if v1_filter_debug_var st \<and> startswith data ''DEBUG:'' then Inr st
      else if startswith data ''TOTAL:'' then
        (case py_getitem (py_split CHR '':'' data) 1 of
           Inl e \<Rightarrow> Inl e
         | Inr payload \<Rightarrow>
             (case py_int payload of
                Inl e \<Rightarrow> Inl e
              | Inr n \<Rightarrow>
                  Inr (st\<lparr>v1_total_devices := n,
                          v1_device_count_label := str_int n,
                          v1_after := v1_after st @ [(0, Update_device_lists)]\<rparr>)))
      else if startswith data ''STATE:'' then
        (case py_getitem (py_split CHR '':'' data) 1 of
           Inl e \<Rightarrow> Inl e
         | Inr s \<Rightarrow> Inr (st\<lparr>v1_system_state := s, v1_state_label := s\<rparr>))
      else if startswith data ''INA226:'' then
        (case py_getitem (py_split CHR '':'' data) 1 of
           Inl e \<Rightarrow> Inl e
         | Inr s \<Rightarrow> Inr (st\<lparr>v1_ina226_status := s, v1_ina226_label := s\<rparr>))
      else if startswith data ''EOT'' then Inr (v1_log_message (mark_check @ '' EOT'') st)
      else if startswith data ''ERR:'' then Inr (v1_log_message (mark_cross @ '' Error: '' @ data) st)
      else if startswith data ''EMERGENCY:'' then Inr (v1_log_message (mark_siren @ '' '' @ data) st)
      else if startswith data ''==='' then Inr (v1_log_message data st)
      else if is_detail_line data then Inr (v1_log_message data st)
      else Inr (v1_log_message data st))"

text \<open>
  \<open>toggle_connection\<close>.  Its first branch opens the operating system's serial port and
  starts the reader thread; it is taken as the parameter \<open>connect\<close>.  The second branch,
  the disconnect, is the code's.
\<close>

definition v1_toggle_connection :: "(SOLARGUI \<Rightarrow> SOLARGUI) \<Rightarrow> SOLARGUI \<Rightarrow> SOLARGUI" where
  "v1_toggle_connection connect st =
     (if \<not> v1_is_connected st then connect st
      else
        (case (case v1_serial_port st of
                 None \<Rightarrow> Inr None
               | Some p \<Rightarrow> (case port_close p of Inl msg \<Rightarrow> Inl msg | Inr p' \<Rightarrow> Inr (Some p'))) of
           Inl msg \<Rightarrow> v1_log_message (mark_cross @ '' Disconnect error: '' @ msg) st
         | Inr sp \<Rightarrow>
             v1_log_message (mark_plug @ '' Disconnected'')
               (st\<lparr>v1_serial_port := sp,
                   v1_is_connected := False,
                   v1_connect_btn := ''Connect'',
                   v1_connection_status := (''Disconnected'', ''red''),
                   v1_port_combo_state := ''normal'',
                   v1_device_count_label := ''0'',
                   v1_state_label := ''Unknown'',
                   v1_ina226_label := ''Unknown''\<rparr>)))"

text \<open>The state that \<open>__init__\<close> leaves, for a given clock.\<close>

definition v1_init :: "(nat \<Rightarrow> hms) \<Rightarrow> SOLARGUI" where
  "v1_init clock =
     \<lparr>v1_serial_port = None, v1_is_connected = False, v1_total_devices = 0,
      v1_system_state = ''Unknown'', v1_ina226_status = ''Unknown'',
      v1_device_count_label = ''0'', v1_state_label = ''Unknown'', v1_ina226_label = ''Unknown'',
      v1_filter_debug_var = True, v1_log_text = [],
      v1_servo_target_var = ''all'', v1_servo_device_var = ''000'', v1_servo_angle_var = Some 90,
      v1_connect_btn = ''Connect'', v1_connection_status = (''Disconnected'', ''red''),
      v1_port_combo_state = ''normal'', v1_dialogs = [], v1_after = [], v1_reported = [],
      v1_clock = clock, v1_ticks = 0\<rparr>"

section \<open>SOLAR_GUI_V3.py: class SolarController\<close>

text \<open>
  The attributes of a SolarController object that the serial protocol reads or writes.
  A log entry is a pair of text and tag (\<open>None\<close> for no tag); \<open>v3_log_buffer\<close> is the
  attribute \<open>log_buffer\<close> and \<open>v3_log_text\<close> the insertions that the log widget shows.
  The three \<open>combo\<close> fields hold the \<open>values\<close> of the drop-down lists.
\<close>

type_synonym log_entry = "string \<times> string option"

record SolarController =
  v3_serial_port :: "port option"
  v3_is_connected :: bool
  v3_read_thread :: bool
  v3_running :: bool
  v3_total_devices :: int
  v3_system_state :: string
  v3_connection_status :: string
  v3_connection_label :: string
  v3_conn_status_label :: string
  v3_connect_button :: string
  v3_servo_target_mode :: string
  v3_servo_device_var :: string
  v3_servo_angle_var :: IntVar
  v3_servo_device_combo :: "string list"
  v3_led_device_var :: string
  v3_led_device_combo :: "string list"
  v3_group_total_var :: IntVar
  v3_group_id_var :: string
  v3_group_id_combo :: "string list"
  v3_current_var :: IntVar
  v3_exposure_var :: IntVar
  v3_frame_count_var :: IntVar
  v3_interframe_delay_var :: IntVar
  v3_debug_filter_var :: bool
  v3_log_buffer :: "log_entry list"
  v3_log_text :: "log_entry list"
  v3_dialogs :: "dialog list"
  v3_clock :: "nat \<Rightarrow> hms"
  v3_ticks :: nat

subsection \<open>Log methods\<close>

definition v3_should_filter_message :: "string \<Rightarrow> SolarController \<Rightarrow> bool" where
  "v3_should_filter_message message st =
     (if v3_debug_filter_var st
      then (startswith message ''DEBUG:'' \<or> contains message ''DEBUG:'')
      else False)"

text \<open>\<open>if tag:\<close> holds for a tag that is neither None nor empty.\<close>

definition tag_given :: "string option \<Rightarrow> bool" where
  "tag_given tag = (case tag of None \<Rightarrow> False | Some t \<Rightarrow> t \<noteq> [])"

definition v3_insert_end :: "string \<Rightarrow> string option \<Rightarrow> log_entry list \<Rightarrow> log_entry list" where
  "v3_insert_end message tag shown =
     (if tag_given tag then shown @ [(message @ newline, tag)]
      else shown @ [(message @ newline, None)])"

definition v3_append_to_log :: "string \<Rightarrow> string option \<Rightarrow> SolarController \<Rightarrow> SolarController" where
  "v3_append_to_log message tag st = st\<lparr>v3_log_text := v3_insert_end message tag (v3_log_text st)\<rparr>"

definition v3_log_message :: "string \<Rightarrow> string option \<Rightarrow> SolarController \<Rightarrow> SolarController" where
  "v3_log_message message tag st =
     (let timestamp = ''['' @ strftime_HMS (v3_clock st (v3_ticks st)) @ '']'';
          full_message = timestamp @ '' '' @ message;
          st1 = st\<lparr>v3_log_buffer := v3_log_buffer st @ [(full_message, tag)],
                    v3_ticks := Suc (v3_ticks st)\<rparr>
      in if \<not> v3_should_filter_message message st1
         then v3_append_to_log full_message tag st1
         else st1)"

text \<open>The loop of \<open>refresh_log_display\<close> over the buffer, \<open>shown\<close> being the widget's text.\<close>

fun v3_refresh_loop :: "SolarController \<Rightarrow> log_entry list \<Rightarrow> log_entry list \<Rightarrow> log_entry list" where
  "v3_refresh_loop st [] shown = shown"
| "v3_refresh_loop st ((message, tag) # rest) shown =
     (let parts = py_split1 CHR '' '' message;
          original_msg = (if length parts > 1 then parts ! 1 else message)
      in v3_refresh_loop st rest
           (if \<not> v3_should_filter_message original_msg st
            then v3_insert_end message tag shown
            else shown))"

definition v3_refresh_log_display :: "SolarController \<Rightarrow> SolarController" where
  "v3_refresh_log_display st = st\<lparr>v3_log_text := v3_refresh_loop st (v3_log_buffer st) []\<rparr>"

definition v3_clear_log :: "SolarController \<Rightarrow> SolarController" where
  "v3_clear_log st = st\<lparr>v3_log_buffer := [], v3_log_text := []\<rparr>"

text \<open>
  A click on the check button "Filter DEBUG messages": the toolkit flips the variable
  \<open>debug_filter_var\<close>, then runs the button's command, \<open>refresh_log_display\<close>.
\<close>

definition v3_click_debug_filter :: "SolarController \<Rightarrow> SolarController" where
  "v3_click_debug_filter st =
     v3_refresh_log_display (st\<lparr>v3_debug_filter_var := \<not> v3_debug_filter_var st\<rparr>)"

subsection \<open>Serial communication and commands\<close>

definition v3_not_connected :: "SolarController \<Rightarrow> bool \<times> SolarController" where
  "v3_not_connected st =
     (False, st\<lparr>v3_dialogs := v3_dialogs st @
                 [ShowWarning ''Not Connected'' ''Please connect to a device first'']\<rparr>)"

definition v3_send_command :: "string \<Rightarrow> SolarController \<Rightarrow> bool \<times> SolarController" where
  "v3_send_command command st =
     (case v3_serial_port st of
        None \<Rightarrow> v3_not_connected st
      | Some p \<Rightarrow>
          if v3_is_connected st then
            (case port_write p (command @ newline) of
               Inr p' \<Rightarrow>
                 (True, v3_log_message (''>> '' @ command) (Some ''info'') (st\<lparr>v3_serial_port := Some p'\<rparr>))
             | Inl msg \<Rightarrow> (False, v3_log_message (''Send error: '' @ msg) (Some ''error'') st))
          else v3_not_connected st)"


definition v3_program_text :: "string \<Rightarrow> int \<Rightarrow> int \<Rightarrow> int \<Rightarrow> int \<Rightarrow> string" where
  "v3_program_text device_id group_id group_total current exposure =
     device_id @ '',program,{'' @ str_int group_id @ '','' @ str_int group_total @ '','' @
     str_int current @ '','' @ str_int exposure @ ''}''"

definition v3_send_program_command :: "SolarController \<Rightarrow> error + SolarController" where
  "v3_send_program_command st =
     (case py_getitem (py_split CHR '' '' (v3_led_device_var st)) 0 of
        Inl e \<Rightarrow> Inl e
      | Inr device_id \<Rightarrow>
     (case py_int (v3_group_id_var st) of
        Inl e \<Rightarrow> Inl e
      | Inr group_id \<Rightarrow>
     (case IntVar_get (v3_group_total_var st) of
        Inl e \<Rightarrow> Inl e
      | Inr group_total \<Rightarrow>
     (case IntVar_get (v3_current_var st) of
        Inl e \<Rightarrow> Inl e
      | Inr current \<Rightarrow>
     (case IntVar_get (v3_exposure_var st) of
        Inl e \<Rightarrow> Inl e
      | Inr exposure \<Rightarrow>
          if current < 0 \<or> current > 1500 then
            Inr (st\<lparr>v3_dialogs := v3_dialogs st @
                     [ShowError ''Invalid Current'' ''Current must be between 0 and 1500 mA'']\<rparr>)
          else if exposure < 10 then
            Inr (st\<lparr>v3_dialogs := v3_dialogs st @
                     [ShowError ''Invalid Exposure'' ''Exposure must be at least 10 ms'']\<rparr>)
          else if group_id < 1 \<or> group_id > group_total then
            Inr (st\<lparr>v3_dialogs := v3_dialogs st @
                     [ShowError ''Invalid Group''
                        (''Group ID must be between 1 and '' @ str_int group_total)]\<rparr>)
          else
            Inr (snd (v3_send_command
                        (v3_program_text device_id group_id group_total current exposure) st)))))))"

subsection \<open>Drop-down lists\<close>

definition device_entry :: "int \<Rightarrow> string" where
  "device_entry i = fmt_03d i @ '' - Device '' @ str_int i"

definition v3_update_servo_device_list :: "SolarController \<Rightarrow> SolarController" where
  "v3_update_servo_device_list st =
     (let devices = ''000 - All'' # map device_entry [1 .. v3_total_devices st];
          st1 = st\<lparr>v3_servo_device_combo := devices\<rparr>
      in if v3_servo_target_mode st1 = ''all''
         then st1\<lparr>v3_servo_device_var := ''000 - All''\<rparr>
         else st1)"

definition v3_update_led_device_list :: "SolarController \<Rightarrow> SolarController" where
  "v3_update_led_device_list st =
     (let total = v3_total_devices st;
          devices = map device_entry [1 .. total];
          st1 = st\<lparr>v3_led_device_combo := devices\<rparr>
      in if total \<ge> 1
         then st1\<lparr>v3_led_device_var := ''001 - Device 1''\<rparr>
         else st1\<lparr>v3_led_device_var := []\<rparr>)"

definition v3_update_group_id_list :: "SolarController \<Rightarrow> SolarController" where
  "v3_update_group_id_list st =
     (case IntVar_get (v3_group_total_var st) of
        Inl e \<Rightarrow> st
      | Inr read_total \<Rightarrow>
          (let group_total = (if read_total < 1 then 1 else read_total);
               group_ids = map str_int [1 .. group_total];
               st1 = st\<lparr>v3_group_id_combo := group_ids\<rparr>
           in (case py_int (v3_group_id_var st1) of
                 Inl e \<Rightarrow> st1\<lparr>v3_group_id_var := ''1''\<rparr>
               | Inr current_group_id \<Rightarrow>
                   if current_group_id > group_total
                   then st1\<lparr>v3_group_id_var := ''1''\<rparr>
                   else st1)))"

subsection \<open>Incoming lines\<close>

text \<open>\<open>message.split(":", 1)[1]\<close>.\<close>

definition after_colon :: "string \<Rightarrow> error + string" where
  "after_colon message = py_getitem (py_split1 CHR '':'' message) 1"

text \<open>
  The body of a \<open>try: n = int(...); ... except ValueError: pass\<close> block: \<open>update\<close> is what
  follows the conversion inside the \<open>try\<close>.
\<close>

definition v3_try_int :: "string \<Rightarrow> (int \<Rightarrow> SolarController) \<Rightarrow> SolarController \<Rightarrow> error + SolarController" where
  "v3_try_int message update st =
     (case after_colon message of
        Inl e \<Rightarrow> Inl e
      | Inr payload \<Rightarrow>
          (case py_int payload of
             Inl e \<Rightarrow> (if e = ValueError then Inr st else Inl e)
           | Inr n \<Rightarrow> Inr (update n)))"

definition v3_handle_serial_message :: "string \<Rightarrow> SolarController \<Rightarrow> error + SolarController" where
  "v3_handle_serial_message message st0 =
     (let st = v3_log_message (''<< '' @ message) None st0 in
      if startswith message ''VER:'' then
        (case after_colon message of
           Inl e \<Rightarrow> Inl e
         | Inr version \<Rightarrow> Inr (v3_log_message (''Firmware Version: '' @ version) (Some ''success'') st))
      else if startswith message ''TOTAL:'' then
        v3_try_int message
          (\<lambda>total. v3_update_led_device_list
                      (v3_update_servo_device_list (st\<lparr>v3_total_devices := total\<rparr>))) st
      else if startswith message ''STATE:'' then
        (case after_colon message of
           Inl e \<Rightarrow> Inl e
         | Inr state \<Rightarrow> Inr (st\<lparr>v3_system_state := state\<rparr>))
      else if startswith message ''GROUP_TOTAL:'' then
        v3_try_int message
          (\<lambda>group_total. v3_update_group_id_list (st\<lparr>v3_group_total_var := Some group_total\<rparr>)) st
      else if startswith message ''FRAME_COUNT:'' then
        v3_try_int message (\<lambda>frame_count. st\<lparr>v3_frame_count_var := Some frame_count\<rparr>) st
      else if startswith message ''INTERFRAME_DELAY:'' then
        v3_try_int message (\<lambda>delay. st\<lparr>v3_interframe_delay_var := Some delay\<rparr>) st
      else if startswith message ''EOT'' then
        Inr (v3_log_message ''Command completed successfully'' (Some ''success'') st)
      else if startswith message ''PROGRAM_ACK:'' then
        Inr (v3_log_message ''Program execution completed'' (Some ''success'') st)
      else if startswith message ''FRAME_SET:'' then
        Inr (v3_log_message ''Frame settings updated'' (Some ''success'') st)
      else if startswith message ''ERR:'' \<or> startswith message ''ERROR:'' then
        Inr (v3_log_message message (Some ''error'') st)
      else Inr st)"

subsection \<open>Disconnect\<close>

text \<open>
  \<open>disconnect\<close>.  Joining the reader thread only waits.  \<open>close\<close> is not guarded here:
  an exception it raises leaves the method, and the model returns it.
\<close>

definition v3_disconnect :: "SolarController \<Rightarrow> error + SolarController" where
  "v3_disconnect st =
     (case (case v3_serial_port st of
              None \<Rightarrow> Inr ()
            | Some p \<Rightarrow>
                if is_open p
                then (case port_close p of Inl msg \<Rightarrow> Inl (PortError msg) | Inr p' \<Rightarrow> Inr ())
                else Inr ()) of
        Inl e \<Rightarrow> Inl e
      | Inr u \<Rightarrow>
          Inr (v3_log_message ''Disconnected'' (Some ''info'')
                 (st\<lparr>v3_running := False,
                     v3_is_connected := False,
                     v3_serial_port := None,
                     v3_connection_status := ''Disconnected'',
                     v3_connection_label := ''red'',
                     v3_conn_status_label := ''red'',
                     v3_connect_button := ''Connect''\<rparr>)))"

text \<open>
  The state that \<open>__init__\<close> leaves, for a given clock: the initial values of the
  attributes, then the three list updates that \<open>create_widgets\<close> runs.
\<close>

definition v3_attributes :: "(nat \<Rightarrow> hms) \<Rightarrow> SolarController" where
  "v3_attributes clock =
     \<lparr>v3_serial_port = None, v3_is_connected = False, v3_read_thread = False,
      v3_running = False, v3_total_devices = 0, v3_system_state = ''Unknown'',
      v3_connection_status = ''Disconnected'', v3_connection_label = ''red'',
      v3_conn_status_label = ''red'', v3_connect_button = ''Connect'',
      v3_servo_target_mode = ''all'', v3_servo_device_var = ''000 - All'',
      v3_servo_angle_var = Some 90, v3_servo_device_combo = [],
      v3_led_device_var = ''001 - Device 1'', v3_led_device_combo = [],
      v3_group_total_var = Some 1, v3_group_id_var = ''1'', v3_group_id_combo = [],
      v3_current_var = Some 0, v3_exposure_var = Some 10, v3_frame_count_var = Some 10,
      v3_interframe_delay_var = Some 10, v3_debug_filter_var = True,
      v3_log_buffer = [], v3_log_text = [], v3_dialogs = [],
      v3_clock = clock, v3_ticks = 0\<rparr>"

definition v3_init :: "(nat \<Rightarrow> hms) \<Rightarrow> SolarController" where
  "v3_init clock =
     v3_update_group_id_list (v3_update_led_device_list (v3_update_servo_device_list (v3_attributes clock)))"

section \<open>Runs, example states and the specified grammar\<close>

text \<open>
  What the event loop of SOLAR_GUI.py delivers: a line from the reader thread, handed to
  \<open>process_serial_data\<close> through \<open>root.after\<close>, or a click on the check button
  "Filter DEBUG messages", which has no command and only flips \<open>filter_debug_var\<close>.
  \<open>process_serial_data\<close> runs as a callback of the toolkit: an exception that leaves it is
  caught by the toolkit's callback wrapper, which reports it and returns to the event
  loop, so the events that follow are still delivered.  The method raises before it
  assigns anything, so the state is as it was.
\<close>

datatype v1_event = V1_line string | V1_click_filter

fun v1_run :: "v1_event list \<Rightarrow> SOLARGUI \<Rightarrow> SOLARGUI" where
  "v1_run [] st = st"
| "v1_run (V1_line data # evs) st =
     (case v1_process_serial_data data st of
        Inl e \<Rightarrow> v1_run evs (st\<lparr>v1_reported := v1_reported st @ [e]\<rparr>)
      | Inr st' \<Rightarrow> v1_run evs st')"
| "v1_run (V1_click_filter # evs) st =
     v1_run evs (st\<lparr>v1_filter_debug_var := \<not> v1_filter_debug_var st\<rparr>)"

text \<open>
  For SOLAR_GUI_V3.py: a call of \<open>log_message\<close>, through which every entry of the log
  goes, or a click on the check button.
\<close>

datatype v3_event = V3_log string "string option" | V3_click_filter

fun v3_run :: "v3_event list \<Rightarrow> SolarController \<Rightarrow> SolarController" where
  "v3_run [] st = st"
| "v3_run (V3_log message tag # evs) st = v3_run evs (v3_log_message message tag st)"
| "v3_run (V3_click_filter # evs) st = v3_run evs (v3_click_debug_filter st)"

fun v3_logs_only :: "v3_event list \<Rightarrow> v3_event list" where
  "v3_logs_only [] = []"
| "v3_logs_only (V3_log message tag # evs) = V3_log message tag # v3_logs_only evs"
| "v3_logs_only (V3_click_filter # evs) = v3_logs_only evs"

text \<open>A clock that always reads 12:00:00, a port just opened, and a connected state of each program.\<close>

definition noon :: "nat \<Rightarrow> hms" where
  "noon n = (12, 0, 0)"

definition fresh_port :: port where
  "fresh_port = \<lparr>is_open = True, written = [], write_error = None, close_error = None\<rparr>"

definition v1_connected :: SOLARGUI where
  "v1_connected =
     (v1_init noon)\<lparr>v1_serial_port := Some fresh_port, v1_is_connected := True,
                    v1_connect_btn := ''Disconnect'',
                    v1_connection_status := (''Connected'', ''green''),
                    v1_port_combo_state := ''disabled''\<rparr>"

definition v3_connected :: SolarController where
  "v3_connected =
     (v3_init noon)\<lparr>v3_serial_port := Some fresh_port, v3_is_connected := True,
                    v3_running := True, v3_read_thread := True,
                    v3_connection_status := ''Connected'', v3_connection_label := ''green'',
                    v3_conn_status_label := ''green'', v3_connect_button := ''Disconnect''\<rparr>"

text \<open>A connected state with the parameters of a program command filled in, the group ID left open.\<close>

definition v3_program_example :: "string \<Rightarrow> SolarController" where
  "v3_program_example g =
     v3_connected\<lparr>v3_led_device_var := ''001 - Device 1'', v3_group_total_var := Some 3,
                  v3_group_id_var := g, v3_current_var := Some 750, v3_exposure_var := Some 100\<rparr>"

text \<open>
  The outbound command grammar as the specification's section on external interfaces lists
  it: the four words \<open>status\<close>, \<open>reinit\<close>, \<open>emergency\<close> and \<open>start\<close>, and the
  comma-separated forms \<open><dev>,servo,<angle>\<close>, \<open><dev>,current,<ma>\<close>,
  \<open>frame,<count>,<delay>\<close> and \<open><dev>,program,{<gid>,<gtotal>,<ma>,<exposure>}\<close>.
  The fields are not constrained further.
\<close>

definition spec_outbound_grammar :: "string \<Rightarrow> bool" where
  "spec_outbound_grammar c =
     (c = ''status'' \<or> c = ''reinit'' \<or> c = ''emergency'' \<or> c = ''start'' \<or>
      (case py_split CHR '','' c of
         [dev, kind, arg] \<Rightarrow> kind = ''servo'' \<or> kind = ''current'' \<or> dev = ''frame''
       | [dev, kind, gid, gtotal, ma, exposure] \<Rightarrow>
           kind = ''program'' \<and> startswith gid ''{'' \<and> startswith (rev exposure) ''}''
       | _ \<Rightarrow> False))"

section \<open>Facts about the string functions\<close>

lemma startswith_Nil [simp]: "startswith s [] = True"
  by (simp add: startswith_def)

lemma startswith_Nil_Cons [simp]: "startswith [] (c # p) = False"
  by (simp add: startswith_def)

lemma startswith_Cons_Cons [simp]: "startswith (x # xs) (c # p) = (x = c \<and> startswith xs p)"
  by (auto simp: startswith_def)

lemma startswith_append_self [simp]: "startswith (p @ t) p"
  by (simp add: startswith_def)

lemma startswithD: "startswith s p \<Longrightarrow> \<exists>t. s = p @ t"
  unfolding startswith_def by (metis append_take_drop_id)

lemma startswith_contains: "startswith s p \<Longrightarrow> contains s p"
  by (cases s) (auto simp: startswith_def)

lemma getitem0_split: "py_getitem (py_split sep s) 0 = Inr (takeWhile (\<lambda>c. c \<noteq> sep) s)"
  by (induction s) (auto simp: py_getitem_def split: list.splits)

lemma split1_append: "sep \<notin> set p \<Longrightarrow> py_split1 sep (p @ sep # t) = [p, t]"
  by (induction p) (auto split: list.splits)

lemma split_append: "sep \<notin> set p \<Longrightarrow> py_split sep (p @ sep # t) = p # py_split sep t"
  by (induction p) (auto split: list.splits)

subsection \<open>Digits\<close>

lemma digit_char_numerals:
  "digit_char 0 = CHR ''0''" "digit_char 1 = CHR ''1''" "digit_char 2 = CHR ''2''"
  "digit_char 3 = CHR ''3''" "digit_char 4 = CHR ''4''" "digit_char 5 = CHR ''5''"
  "digit_char 6 = CHR ''6''" "digit_char 7 = CHR ''7''" "digit_char 8 = CHR ''8''"
  "digit_char 9 = CHR ''9''"
  by code_simp+

lemma of_char_digit_char: "d < 10 \<Longrightarrow> (of_char (digit_char d) :: nat) = 48 + d"
  by (simp add: digit_char_def)

lemma is_digit_digit_char [simp]: "d < 10 \<Longrightarrow> is_digit (digit_char d)"
  by (simp add: is_digit_def of_char_digit_char)

lemma digit_val_digit_char [simp]: "d < 10 \<Longrightarrow> digit_val (digit_char d) = d"
  by (simp add: digit_val_def of_char_digit_char)

lemma str_nat_digits: "c \<in> set (str_nat n) \<Longrightarrow> is_digit c"
proof (induction n arbitrary: c rule: str_nat.induct)
  case (1 n)
  show ?case
  proof (cases "n < 10")
    case True
    with "1.prems" show ?thesis by (simp add: str_nat.simps [of n])
  next
    case False
    with "1.prems" "1.IH" show ?thesis
      by (auto simp: str_nat.simps [of n])
  qed
qed

lemma str_nat_nonempty [simp]: "str_nat n \<noteq> []"
  by (subst str_nat.simps) simp

lemma hd_str_nat_digit: "is_digit (hd (str_nat n))"
  by (rule str_nat_digits [of _ n]) simp

lemma last_str_nat_digit: "is_digit (last (str_nat n))"
  by (rule str_nat_digits [of _ n]) simp

lemma is_digit_not_space: "is_digit c \<Longrightarrow> \<not> is_space c"
  by (auto simp: is_digit_def is_space_def)

lemma space_not_digit: "\<not> is_digit CHR '' ''"
  by (simp add: is_digit_def)

lemma str_nat_no_space: "CHR '' '' \<notin> set (str_nat n)"
  using str_nat_digits space_not_digit by blast

subsection \<open>Reading back what \<open>str\<close> wrote\<close>

lemma digits_acc_append:
  "\<forall>c \<in> set xs. is_digit c \<Longrightarrow> is_digit d \<Longrightarrow>
   digits_acc acc (xs @ [d]) = map_option (\<lambda>a. 10 * a + digit_val d) (digits_acc acc xs)"
  by (induction xs arbitrary: acc) auto

lemma digits_acc_str_nat: "digits_acc 0 (str_nat n) = Some n"
proof (induction n rule: str_nat.induct)
  case (1 n)
  show ?case
  proof (cases "n < 10")
    case True
    then show ?thesis by (simp add: str_nat.simps [of n])
  next
    case False
    then have "digits_acc 0 (str_nat n) = digits_acc 0 (str_nat (n div 10) @ [digit_char (n mod 10)])"
      by (simp add: str_nat.simps [of n])
    also have "\<dots> = map_option (\<lambda>a. 10 * a + digit_val (digit_char (n mod 10)))
                       (digits_acc 0 (str_nat (n div 10)))"
      by (rule digits_acc_append) (auto dest: str_nat_digits)
    also have "\<dots> = Some n"
      using False "1.IH" by simp
    finally show ?thesis .
  qed
qed

lemma parse_nat_digits: "s \<noteq> [] \<Longrightarrow> is_digit (hd s) \<Longrightarrow> parse_nat s = digits_acc 0 s"
  by (cases s) (simp_all add: parse_nat_def)

lemma parse_nat_str_nat: "parse_nat (str_nat n) = Some n"
  by (simp add: parse_nat_digits hd_str_nat_digit digits_acc_str_nat)

lemma dropWhile_id: "s \<noteq> [] \<Longrightarrow> \<not> P (hd s) \<Longrightarrow> dropWhile P s = s"
  by (cases s) auto

lemma strip_id: "s \<noteq> [] \<Longrightarrow> \<not> is_space (hd s) \<Longrightarrow> \<not> is_space (last s) \<Longrightarrow> strip s = s"
  by (simp add: strip_def dropWhile_id hd_rev)

lemma strip_str_nat: "strip (str_nat n) = str_nat n"
  by (simp add: strip_id is_digit_not_space hd_str_nat_digit last_str_nat_digit)

lemma to_ascii_acc_ascii: "\<forall>c \<in> set s. (of_char c :: nat) < 128 \<Longrightarrow> to_ascii_acc 0 0 s = Some s"
  by (induction s) auto

lemma is_digit_ascii: "is_digit c \<Longrightarrow> (of_char c :: nat) < 128"
  by (simp add: is_digit_def)

lemma to_ascii_str_nat: "to_ascii (str_nat n) = Some (str_nat n)"
  unfolding to_ascii_def
  by (rule to_ascii_acc_ascii) (auto dest: str_nat_digits is_digit_ascii)

lemma to_ascii_minus_str_nat: "to_ascii (CHR ''-'' # str_nat n) = Some (CHR ''-'' # str_nat n)"
  unfolding to_ascii_def
  by (rule to_ascii_acc_ascii) (auto dest: str_nat_digits is_digit_ascii)

lemma filter_digits_str_nat: "filter is_digit (str_nat n) = str_nat n"
  using str_nat_digits by (simp add: filter_id_conv)

lemma py_int_str_nat:
  assumes "length (str_nat n) \<le> int_max_str_digits"
  shows "py_int (str_nat n) = Inr (int n)"
proof -
  obtain c cs where s: "str_nat n = c # cs"
    by (cases "str_nat n") auto
  have d: "is_digit c" using hd_str_nat_digit [of n] s by simp
  have sign: "c \<noteq> CHR ''-''" "c \<noteq> CHR ''+''"
    using d by (auto simp: is_digit_def)
  have st: "strip (str_nat n) = c # cs"
    using strip_str_nat [of n] s by simp
  have p: "parse_nat (c # cs) = Some n"
    using parse_nat_str_nat [of n] s by simp
  have few: "\<not> int_max_str_digits < length (filter is_digit (str_nat n))"
    using assms by (simp add: filter_digits_str_nat)
  show ?thesis
    unfolding py_int_def to_ascii_str_nat
    using few sign p by (simp add: st)
qed

lemma py_int_str_int:
  assumes "length (str_nat (nat \<bar>i\<bar>)) \<le> int_max_str_digits"
  shows "py_int (str_int i) = Inr i"
proof (cases "i < 0")
  case False
  then show ?thesis using assms by (simp add: str_int_def py_int_str_nat)
next
  case True
  let ?m = "nat (- i)"
  have m: "nat \<bar>i\<bar> = ?m" using True by simp
  have sp: "\<not> is_space CHR ''-''" by (simp add: is_space_def)
  have nd: "\<not> is_digit CHR ''-''" by (simp add: is_digit_def)
  have st: "strip (CHR ''-'' # str_nat ?m) = CHR ''-'' # str_nat ?m"
    by (rule strip_id) (simp_all add: sp is_digit_not_space last_str_nat_digit)
  have few: "\<not> int_max_str_digits < length (filter is_digit (CHR ''-'' # str_nat ?m))"
    using assms by (simp add: nd filter_digits_str_nat m)
  have "py_int (CHR ''-'' # str_nat ?m) = Inr (- int ?m)"
    unfolding py_int_def to_ascii_minus_str_nat
    using few by (simp add: st parse_nat_str_nat)
  then show ?thesis
    using True by (simp add: str_int_def)
qed

text \<open>A literal with more digits than the limit is rejected.\<close>

lemma py_int_too_long:
  assumes "int_max_str_digits < length (str_nat n)"
  shows "py_int (str_nat n) = Inl ValueError"
  unfolding py_int_def to_ascii_str_nat
  using assms by (simp add: filter_digits_str_nat)

lemma str_nat_times10: "0 < n \<Longrightarrow> str_nat (10 * n) = str_nat n @ [digit_char 0]"
  by (subst str_nat.simps) simp

lemma length_str_nat_pow10: "length (str_nat (10 ^ k)) = Suc k"
proof (induction k)
  case 0
  show ?case by (simp add: str_nat.simps [of "Suc 0"])
next
  case (Suc k)
  have "str_nat (10 ^ Suc k) = str_nat (10 ^ k) @ [digit_char 0]"
    using str_nat_times10 [of "10 ^ k"] by simp
  then show ?case by (simp add: Suc.IH)
qed

lemma str_int_pow10: "str_int (10 ^ k) = str_nat (10 ^ k)"
  by (simp add: str_int_def nat_power_eq)

lemma py_int_pow10_limit: "py_int (str_int (10 ^ int_max_str_digits)) = Inl ValueError"
  unfolding str_int_pow10
  by (rule py_int_too_long) (simp add: length_str_nat_pow10)

lemma str_int_no_colon: "CHR '':'' \<notin> set (str_int i)"
proof -
  have "\<not> is_digit CHR '':''" by (simp add: is_digit_def)
  then have "CHR '':'' \<notin> set (str_nat n)" for n
    using str_nat_digits by blast
  then show ?thesis by (simp add: str_int_def)
qed

section \<open>Sending commands\<close>

lemma v1_log_text_log_message:
  "v1_log_text (v1_log_message m st) =
   v1_log_text st @ [''['' @ strftime_HMS (v1_clock st (v1_ticks st)) @ ''] '' @ m @ newline]"
  by (simp add: v1_log_message_def Let_def)

lemma v1_serial_port_log_message [simp]: "v1_serial_port (v1_log_message m st) = v1_serial_port st"
  by (simp add: v1_log_message_def Let_def)

lemma strftime_noon: "strftime_HMS (12, 0, 0) = ''12:00:00''"
  by code_simp

lemma v3_init_fields:
  "v3_serial_port (v3_init clock) = None"
  "v3_is_connected (v3_init clock) = False"
  "v3_debug_filter_var (v3_init clock) = True"
  "v3_log_buffer (v3_init clock) = []"
  "v3_log_text (v3_init clock) = []"
  "v3_dialogs (v3_init clock) = []"
  "v3_clock (v3_init clock) = clock"
  "v3_ticks (v3_init clock) = 0"
  by (simp_all add: v3_init_def v3_attributes_def v3_update_group_id_list_def
      v3_update_led_device_list_def v3_update_servo_device_list_def IntVar_get_def Let_def
      split: sum.splits)

lemma not_grammar_current: "\<not> spec_outbound_grammar ''current''"
  by (simp add: spec_outbound_grammar_def)

text \<open>
  Claim C8.  When the client is not connected (\<open>is_connected\<close> is false or there is no
  serial port object), \<open>send_command\<close> writes nothing and logs nothing, for every command
  string: the serial port and the log are as they were, and the only effect is a dialog
  for the user (\<open>showerror\<close> in SOLAR_GUI.py, \<open>showwarning\<close> in SOLAR_GUI_V3.py, which
  also returns False).
\<close>

theorem send_command_not_connected:
  assumes "\<not> v1_is_connected s1 \<or> v1_serial_port s1 = None"
      and "\<not> v3_is_connected s3 \<or> v3_serial_port s3 = None"
  shows "v1_send_command c s1 =
           s1\<lparr>v1_dialogs := v1_dialogs s1 @ [ShowError ''Error'' ''Not connected to device'']\<rparr>
         \<and> v1_serial_port (v1_send_command c s1) = v1_serial_port s1
         \<and> v1_log_text (v1_send_command c s1) = v1_log_text s1
         \<and> v3_send_command c s3 =
             (False, s3\<lparr>v3_dialogs := v3_dialogs s3 @
                          [ShowWarning ''Not Connected'' ''Please connect to a device first'']\<rparr>)
         \<and> v3_serial_port (snd (v3_send_command c s3)) = v3_serial_port s3
         \<and> v3_log_buffer (snd (v3_send_command c s3)) = v3_log_buffer s3
         \<and> v3_log_text (snd (v3_send_command c s3)) = v3_log_text s3"
  using assms
  by (auto simp: v1_send_command_def v3_send_command_def v3_not_connected_def split: option.splits)

theorem send_command_not_connected_witness:
  "v1_serial_port (v1_send_command ''status'' (v1_connected\<lparr>v1_is_connected := False\<rparr>)) = Some fresh_port
   \<and> v1_log_text (v1_send_command ''status'' (v1_connected\<lparr>v1_is_connected := False\<rparr>)) = []
   \<and> v1_dialogs (v1_send_command ''status'' (v1_connected\<lparr>v1_is_connected := False\<rparr>)) =
       [ShowError ''Error'' ''Not connected to device'']
   \<and> fst (v3_send_command ''status'' (v3_init noon)) = False
   \<and> v3_serial_port (snd (v3_send_command ''status'' (v3_init noon))) = None
   \<and> v3_log_buffer (snd (v3_send_command ''status'' (v3_init noon))) = []"
proof -
  have h1: "\<not> v1_is_connected (v1_connected\<lparr>v1_is_connected := False\<rparr>)
            \<or> v1_serial_port (v1_connected\<lparr>v1_is_connected := False\<rparr>) = None"
    by simp
  have h3: "\<not> v3_is_connected (v3_init noon) \<or> v3_serial_port (v3_init noon) = None"
    by (simp add: v3_init_fields)
  show ?thesis
    using send_command_not_connected [OF h1 h3, of "''status''"]
    by (simp add: v1_connected_def v1_init_def v3_init_fields)
qed

text \<open>
  Claim C10.  In SOLAR_GUI.py the action "Current Status", while connected to a port that
  accepts the write, writes exactly \<open>current\<close> followed by one line feed, and logs it as
  an outgoing line; \<open>current\<close> is not a command of the specified outbound grammar.
\<close>

theorem get_current_status_writes_current:
  assumes "v1_is_connected st" and "v1_serial_port st = Some p" and "write_error p = None"
  shows "v1_serial_port (v1_get_current_status st) =
           Some (p\<lparr>written := written p @ [''current'' @ [CHR 0x0A]]\<rparr>)
         \<and> v1_log_text (v1_get_current_status st) =
             v1_log_text st @
             [''['' @ strftime_HMS (v1_clock st (v1_ticks st)) @ ''] '' @ mark_arrow @ '' current'' @ [CHR 0x0A]]
         \<and> \<not> spec_outbound_grammar ''current''"
  using assms
  by (simp add: v1_get_current_status_def v1_send_command_def port_write_def
      v1_log_text_log_message not_grammar_current newline_def)

theorem get_current_status_writes_current_witness:
  "v1_is_connected v1_connected
   \<and> map_option written (v1_serial_port (v1_get_current_status v1_connected)) =
       Some [''current'' @ [CHR 0x0A]]
   \<and> v1_log_text (v1_get_current_status v1_connected) =
       [''[12:00:00] '' @ mark_arrow @ '' current'' @ [CHR 0x0A]]"
proof -
  have c: "v1_is_connected v1_connected" and p: "v1_serial_port v1_connected = Some fresh_port"
    and w: "write_error fresh_port = None"
    by (simp_all add: v1_connected_def fresh_port_def)
  show ?thesis
    using get_current_status_writes_current [OF c p w] c
    by (simp add: v1_connected_def v1_init_def fresh_port_def noon_def strftime_noon)
qed

section \<open>Validation of commands\<close>

lemma v3_port_log_message [simp]: "v3_serial_port (v3_log_message m tag st) = v3_serial_port st"
  by (simp add: v3_log_message_def v3_append_to_log_def Let_def)

lemma v3_send_command_written:
  assumes "v3_is_connected st" and "v3_serial_port st = Some p" and "write_error p = None"
  shows "v3_serial_port (snd (v3_send_command c st)) =
           Some (p\<lparr>written := written p @ [c @ [CHR 0x0A]]\<rparr>)"
  using assms by (simp add: v3_send_command_def port_write_def newline_def)


lemma v3_connected_fields:
  "v3_is_connected v3_connected" "v3_serial_port v3_connected = Some fresh_port"
  "v3_servo_target_mode v3_connected = ''all''" "v3_dialogs v3_connected = []"
  by (simp_all add: v3_connected_def v3_init_fields v3_init_def v3_attributes_def
      v3_update_group_id_list_def v3_update_led_device_list_def v3_update_servo_device_list_def
      IntVar_get_def Let_def split: sum.splits)

lemma fresh_port_fields: "write_error fresh_port = None" "written fresh_port = []"
  by (simp_all add: fresh_port_def)

lemma v3_program_read:
  assumes "py_int (v3_group_id_var st) = Inr gid"
      and "v3_group_total_var st = Some gt"
      and "v3_current_var st = Some ma"
      and "v3_exposure_var st = Some ex"
  shows "v3_send_program_command st =
     (if ma < 0 \<or> ma > 1500 then
        Inr (st\<lparr>v3_dialogs := v3_dialogs st @
                 [ShowError ''Invalid Current'' ''Current must be between 0 and 1500 mA'']\<rparr>)
      else if ex < 10 then
        Inr (st\<lparr>v3_dialogs := v3_dialogs st @
                 [ShowError ''Invalid Exposure'' ''Exposure must be at least 10 ms'']\<rparr>)
      else if gid < 1 \<or> gid > gt then
        Inr (st\<lparr>v3_dialogs := v3_dialogs st @
                 [ShowError ''Invalid Group'' (''Group ID must be between 1 and '' @ str_int gt)]\<rparr>)
      else
        Inr (snd (v3_send_command
                    (v3_program_text (takeWhile (\<lambda>c. c \<noteq> CHR '' '') (v3_led_device_var st))
                       gid gt ma ex) st)))"
  using assms
  by (simp add: v3_send_program_command_def getitem0_split IntVar_get_def)

text \<open>
  Claim C5.  \<open>send_program_command\<close> of SOLAR_GUI_V3.py, for a group ID that reads as the
  integer \<open>gid\<close>, group total \<open>gt\<close>, current \<open>ma\<close> and exposure \<open>ex\<close>, the device being the
  text of the device field up to its first space.  The command is built and handed to
  \<open>send_command\<close> exactly when \<open>0 \<le> ma \<le> 1500\<close>, \<open>10 \<le> ex\<close> and \<open>1 \<le> gid \<le> gt\<close>; its text is
  \<open><device>,program,{<gid>,<gt>,<ma>,<ex>}\<close>, and a connected port that accepts the write
  receives that text and one line feed.  In every other case the only effect is an error
  dialog: the port and the log are untouched.
\<close>

theorem send_program_command_validation:
  assumes "py_int (v3_group_id_var st) = Inr gid"
      and "v3_group_total_var st = Some gt"
      and "v3_current_var st = Some ma"
      and "v3_exposure_var st = Some ex"
      and "device = takeWhile (\<lambda>c. c \<noteq> CHR '' '') (v3_led_device_var st)"
      and "wire = device @ '',program,{'' @ str_int gid @ '','' @ str_int gt @ '','' @
                  str_int ma @ '','' @ str_int ex @ ''}''"
      and "valid = (0 \<le> ma \<and> ma \<le> 1500 \<and> 10 \<le> ex \<and> 1 \<le> gid \<and> gid \<le> gt)"
  shows "(valid \<longrightarrow> v3_send_program_command st = Inr (snd (v3_send_command wire st)))
       \<and> (valid \<and> v3_is_connected st \<and> v3_serial_port st = Some p \<and> write_error p = None \<longrightarrow>
            (\<exists>st'. v3_send_program_command st = Inr st' \<and>
                   v3_serial_port st' = Some (p\<lparr>written := written p @ [wire @ [CHR 0x0A]]\<rparr>)))
       \<and> (\<not> valid \<longrightarrow>
            (\<exists>title msg. v3_send_program_command st =
                           Inr (st\<lparr>v3_dialogs := v3_dialogs st @ [ShowError title msg]\<rparr>)))"
proof -
  note rd = v3_program_read [OF assms(1-4)]
  have w: "v3_program_text device gid gt ma ex = wire"
    by (simp add: v3_program_text_def assms(6))
  have ok: "v3_send_program_command st = Inr (snd (v3_send_command wire st))" if valid
    using that assms(7) by (simp add: rd w assms(5) [symmetric])
  have c1: "valid \<longrightarrow> v3_send_program_command st = Inr (snd (v3_send_command wire st))"
    using ok by simp
  have c2: "valid \<and> v3_is_connected st \<and> v3_serial_port st = Some p \<and> write_error p = None \<longrightarrow>
            (\<exists>st'. v3_send_program_command st = Inr st' \<and>
                   v3_serial_port st' = Some (p\<lparr>written := written p @ [wire @ [CHR 0x0A]]\<rparr>))"
  proof
    assume h: "valid \<and> v3_is_connected st \<and> v3_serial_port st = Some p \<and> write_error p = None"
    then have "v3_serial_port (snd (v3_send_command wire st)) =
                 Some (p\<lparr>written := written p @ [wire @ [CHR 0x0A]]\<rparr>)"
      by (simp add: v3_send_command_written)
    with ok h show "\<exists>st'. v3_send_program_command st = Inr st' \<and>
                   v3_serial_port st' = Some (p\<lparr>written := written p @ [wire @ [CHR 0x0A]]\<rparr>)"
      by blast
  qed
  have c3: "\<not> valid \<longrightarrow>
            (\<exists>title msg. v3_send_program_command st =
                           Inr (st\<lparr>v3_dialogs := v3_dialogs st @ [ShowError title msg]\<rparr>))"
  proof
    assume nv: "\<not> valid"
    consider (cur) "ma < 0 \<or> ma > 1500"
      | (exp) "\<not> (ma < 0 \<or> ma > 1500)" "ex < 10"
      | (grp) "\<not> (ma < 0 \<or> ma > 1500)" "\<not> ex < 10" "gid < 1 \<or> gid > gt"
      using nv assms(7) by linarith
    then show "\<exists>title msg. v3_send_program_command st =
                           Inr (st\<lparr>v3_dialogs := v3_dialogs st @ [ShowError title msg]\<rparr>)"
    proof cases
      case cur
      then have "v3_send_program_command st = Inr (st\<lparr>v3_dialogs := v3_dialogs st @
                 [ShowError ''Invalid Current'' ''Current must be between 0 and 1500 mA'']\<rparr>)"
        by (simp add: rd)
      then show ?thesis by blast
    next
      case exp
      then have "v3_send_program_command st = Inr (st\<lparr>v3_dialogs := v3_dialogs st @
                 [ShowError ''Invalid Exposure'' ''Exposure must be at least 10 ms'']\<rparr>)"
        by (simp add: rd)
      then show ?thesis by blast
    next
      case grp
      then have "v3_send_program_command st = Inr (st\<lparr>v3_dialogs := v3_dialogs st @
                 [ShowError ''Invalid Group'' (''Group ID must be between 1 and '' @ str_int gt)]\<rparr>)"
        by (simp add: rd)
      then show ?thesis by blast
    qed
  qed
  from c1 c2 c3 show ?thesis by blast
qed

lemma py_int_3_5: "py_int ''3'' = Inr 3" "py_int ''5'' = Inr 5"
  by code_simp+

lemma str_int_examples:
  "str_int 3 = ''3''" "str_int 750 = ''750''" "str_int 100 = ''100''"
  "str_int 200 = ''200''" "str_int 90 = ''90''"
  by code_simp+

text \<open>
  The group ID 3 of 3 groups is accepted and written; the group ID 5 of 3 groups is
  rejected and nothing is written.
\<close>

theorem send_program_command_validation_witness:
  "map_sum id (\<lambda>st. map_option written (v3_serial_port st))
     (v3_send_program_command (v3_program_example ''3''))
     = Inr (Some [''001,program,{3,3,750,100}'' @ [CHR 0x0A]])
   \<and> map_sum id (\<lambda>st. map_option written (v3_serial_port st))
       (v3_send_program_command (v3_program_example ''5'')) = Inr (Some [])"
proof -
  have f: "v3_group_total_var (v3_program_example g) = Some 3"
    "v3_current_var (v3_program_example g) = Some 750"
    "v3_exposure_var (v3_program_example g) = Some 100"
    "v3_group_id_var (v3_program_example g) = g"
    "v3_led_device_var (v3_program_example g) = ''001 - Device 1''"
    "v3_is_connected (v3_program_example g)"
    "v3_serial_port (v3_program_example g) = Some fresh_port" for g
    by (simp_all add: v3_program_example_def v3_connected_fields)
  have g3: "py_int (v3_group_id_var (v3_program_example ''3'')) = Inr 3"
    and g5: "py_int (v3_group_id_var (v3_program_example ''5'')) = Inr 5"
    by (simp_all add: f py_int_3_5)
  note acc = send_program_command_validation [OF g3 f(1) f(2) f(3) refl refl refl, of fresh_port]
  note rej = send_program_command_validation [OF g5 f(1) f(2) f(3) refl refl refl, of fresh_port]
  from acc obtain st' where
    a: "v3_send_program_command (v3_program_example ''3'') = Inr st'"
       "v3_serial_port st' =
          Some (fresh_port\<lparr>written := written fresh_port @ [''001,program,{3,3,750,100}'' @ [CHR 0x0A]]\<rparr>)"
    by (auto simp: f fresh_port_fields str_int_examples)
  from rej obtain title msg where
    r: "v3_send_program_command (v3_program_example ''5'') =
          Inr ((v3_program_example ''5'')\<lparr>v3_dialogs := v3_dialogs (v3_program_example ''5'') @ [ShowError title msg]\<rparr>)"
    by auto
  show ?thesis
    by (simp add: a r f fresh_port_fields)
qed




section \<open>The group ID list\<close>

lemma py_int_1: "py_int ''1'' = Inr 1"
  by code_simp

text \<open>
  Claim C9, as amended.  \<open>update_group_id_list\<close> of SOLAR_GUI_V3.py returns at once when
  the group total cannot be read.  When it reads as \<open>gt\<close>, let \<open>m\<close> be \<open>gt\<close> raised to at
  least 1: the selectable IDs become \<open>1 .. m\<close>, the group total itself is left as it is, and
  afterwards the selected group ID reads as an integer that is at most \<open>m\<close>.  It is reset
  to \<open>1\<close> when it did not read as an integer or read as one above \<open>m\<close>, and kept otherwise.
\<close>

theorem update_group_id_list_bounds:
  assumes "m = max 1 gt" and "st' = v3_update_group_id_list st"
  shows "(v3_group_total_var st = None \<longrightarrow> st' = st)
       \<and> (v3_group_total_var st = Some gt \<longrightarrow>
            v3_group_id_combo st' = map str_int [1 .. m]
          \<and> v3_group_total_var st' = Some gt
          \<and> (\<exists>gid. py_int (v3_group_id_var st') = Inr gid \<and> gid \<le> m)
          \<and> (\<forall>gid. py_int (v3_group_id_var st) = Inr gid \<and> gid \<le> m \<longrightarrow>
                 v3_group_id_var st' = v3_group_id_var st)
          \<and> (\<forall>gid. py_int (v3_group_id_var st) = Inr gid \<and> m < gid \<longrightarrow> v3_group_id_var st' = ''1'')
          \<and> (\<forall>e. py_int (v3_group_id_var st) = Inl e \<longrightarrow> v3_group_id_var st' = ''1''))"
proof -
  have none: "v3_group_total_var st = None \<longrightarrow> st' = st"
    by (simp add: assms v3_update_group_id_list_def IntVar_get_def)
  have some: "v3_group_id_combo st' = map str_int [1 .. m]
          \<and> v3_group_total_var st' = Some gt
          \<and> (\<exists>gid. py_int (v3_group_id_var st') = Inr gid \<and> gid \<le> m)
          \<and> (\<forall>gid. py_int (v3_group_id_var st) = Inr gid \<and> gid \<le> m \<longrightarrow>
                 v3_group_id_var st' = v3_group_id_var st)
          \<and> (\<forall>gid. py_int (v3_group_id_var st) = Inr gid \<and> m < gid \<longrightarrow> v3_group_id_var st' = ''1'')
          \<and> (\<forall>e. py_int (v3_group_id_var st) = Inl e \<longrightarrow> v3_group_id_var st' = ''1'')"
    if gt: "v3_group_total_var st = Some gt"
  proof -
    have m: "(if gt < 1 then 1 else gt) = m"
      by (simp add: assms(1) max_def)
    show ?thesis
    proof (cases "py_int (v3_group_id_var st)")
      case (Inl e)
      then have "st' = st\<lparr>v3_group_id_combo := map str_int [1 .. m], v3_group_id_var := ''1''\<rparr>"
        using gt by (simp add: assms(2) v3_update_group_id_list_def IntVar_get_def Let_def m)
      then show ?thesis
        using Inl gt by (simp add: py_int_1 assms(1))
    next
      case (Inr gid)
      show ?thesis
      proof (cases "gid > m")
        case True
        then have "st' = st\<lparr>v3_group_id_combo := map str_int [1 .. m], v3_group_id_var := ''1''\<rparr>"
          using gt Inr by (simp add: assms(2) v3_update_group_id_list_def IntVar_get_def Let_def m)
        then show ?thesis
          using Inr gt True by (auto simp: py_int_1 assms(1))
      next
        case False
        then have "st' = st\<lparr>v3_group_id_combo := map str_int [1 .. m]\<rparr>"
          using gt Inr by (simp add: assms(2) v3_update_group_id_list_def IntVar_get_def Let_def m)
        then show ?thesis
          using Inr gt False by auto
      qed
    qed
  qed
  from none some show ?thesis by blast
qed

text \<open>With three groups, a selected group ID of 5 is reset to 1.\<close>

theorem update_group_id_list_bounds_witness:
  "v3_group_id_var (v3_update_group_id_list (v3_program_example ''5'')) = ''1''
   \<and> v3_group_id_combo (v3_update_group_id_list (v3_program_example ''5'')) = [''1'', ''2'', ''3'']"
proof -
  have f: "v3_group_total_var (v3_program_example ''5'') = Some 3"
    "py_int (v3_group_id_var (v3_program_example ''5'')) = Inr 5"
    by (simp_all add: v3_program_example_def py_int_3_5)
  have l: "map str_int [1 .. 3] = [''1'', ''2'', ''3'']"
    by code_simp
  show ?thesis
    using update_group_id_list_bounds [where gt = 3 and st = "v3_program_example ''5''", OF refl refl] f
    by (simp add: l)
qed

text \<open>
  A group total of 0 is not raised in the variable: the selected group ID 1 then exceeds
  it.
\<close>

theorem group_id_above_total_counterexample:
  "v3_group_id_var (v3_update_group_id_list ((v3_init noon)\<lparr>v3_group_total_var := Some 0\<rparr>)) = ''1''
   \<and> v3_group_total_var (v3_update_group_id_list ((v3_init noon)\<lparr>v3_group_total_var := Some 0\<rparr>)) = Some 0
   \<and> py_int ''1'' = Inr 1 \<and> \<not> ((1 :: int) \<le> 0)"
  by (simp add: py_int_1 v3_init_def v3_attributes_def v3_update_group_id_list_def
      v3_update_led_device_list_def v3_update_servo_device_list_def IntVar_get_def Let_def)

section \<open>Disconnecting\<close>

lemma v3_log_message_keeps:
  "v3_total_devices (v3_log_message m tag st) = v3_total_devices st"
  "v3_system_state (v3_log_message m tag st) = v3_system_state st"
  "v3_group_total_var (v3_log_message m tag st) = v3_group_total_var st"
  "v3_frame_count_var (v3_log_message m tag st) = v3_frame_count_var st"
  "v3_interframe_delay_var (v3_log_message m tag st) = v3_interframe_delay_var st"
  "v3_is_connected (v3_log_message m tag st) = v3_is_connected st"
  by (simp_all add: v3_log_message_def v3_append_to_log_def Let_def)

lemma v1_log_message_keeps:
  "v1_total_devices (v1_log_message m st) = v1_total_devices st"
  "v1_system_state (v1_log_message m st) = v1_system_state st"
  "v1_ina226_status (v1_log_message m st) = v1_ina226_status st"
  "v1_device_count_label (v1_log_message m st) = v1_device_count_label st"
  "v1_state_label (v1_log_message m st) = v1_state_label st"
  "v1_ina226_label (v1_log_message m st) = v1_ina226_label st"
  "v1_is_connected (v1_log_message m st) = v1_is_connected st"
  by (simp_all add: v1_log_message_def Let_def)

text \<open>
  Claim C6, as amended.  Where closing the port does not raise: \<open>disconnect\<close> of
  SOLAR_GUI_V3.py returns with \<open>is_connected\<close> false and no port, and leaves the device
  count, the system state, the group total, the frame count and the interframe delay as
  they were.  The disconnect branch of \<open>toggle_connection\<close> of SOLAR_GUI.py sets
  \<open>is_connected\<close> to false and the three status labels to \<open>0\<close>, \<open>Unknown\<close> and \<open>Unknown\<close>;
  the attributes \<open>total_devices\<close>, \<open>system_state\<close> and \<open>ina226_status\<close> keep their values.
\<close>

theorem disconnect_keeps_fields:
  assumes "closes3 = (case v3_serial_port s3 of None \<Rightarrow> True
                      | Some p \<Rightarrow> \<not> is_open p \<or> close_error p = None)"
      and "closes1 = (case v1_serial_port s1 of None \<Rightarrow> True | Some p \<Rightarrow> close_error p = None)"
      and "t1 = v1_toggle_connection connect s1"
  shows "(closes3 \<longrightarrow>
            (\<exists>t3. v3_disconnect s3 = Inr t3
                 \<and> \<not> v3_is_connected t3 \<and> v3_serial_port t3 = None
                 \<and> v3_total_devices t3 = v3_total_devices s3
                 \<and> v3_system_state t3 = v3_system_state s3
                 \<and> v3_group_total_var t3 = v3_group_total_var s3
                 \<and> v3_frame_count_var t3 = v3_frame_count_var s3
                 \<and> v3_interframe_delay_var t3 = v3_interframe_delay_var s3))
       \<and> (v1_is_connected s1 \<and> closes1 \<longrightarrow>
            \<not> v1_is_connected t1
          \<and> v1_device_count_label t1 = ''0''
          \<and> v1_state_label t1 = ''Unknown''
          \<and> v1_ina226_label t1 = ''Unknown''
          \<and> v1_total_devices t1 = v1_total_devices s1
          \<and> v1_system_state t1 = v1_system_state s1
          \<and> v1_ina226_status t1 = v1_ina226_status s1)"
proof -
  have c3: "closes3 \<longrightarrow>
            (\<exists>t3. v3_disconnect s3 = Inr t3
                 \<and> \<not> v3_is_connected t3 \<and> v3_serial_port t3 = None
                 \<and> v3_total_devices t3 = v3_total_devices s3
                 \<and> v3_system_state t3 = v3_system_state s3
                 \<and> v3_group_total_var t3 = v3_group_total_var s3
                 \<and> v3_frame_count_var t3 = v3_frame_count_var s3
                 \<and> v3_interframe_delay_var t3 = v3_interframe_delay_var s3)"
    unfolding assms(1)
    by (cases "v3_serial_port s3")
       (auto simp: v3_disconnect_def port_close_def v3_log_message_keeps split: option.splits)
  have c1: "v1_is_connected s1 \<and> closes1 \<longrightarrow>
            \<not> v1_is_connected t1
          \<and> v1_device_count_label t1 = ''0''
          \<and> v1_state_label t1 = ''Unknown''
          \<and> v1_ina226_label t1 = ''Unknown''
          \<and> v1_total_devices t1 = v1_total_devices s1
          \<and> v1_system_state t1 = v1_system_state s1
          \<and> v1_ina226_status t1 = v1_ina226_status s1"
    unfolding assms(2,3)
    by (cases "v1_serial_port s1")
       (auto simp: v1_toggle_connection_def port_close_def v1_log_message_keeps split: option.splits)
  from c3 c1 show ?thesis by blast
qed

text \<open>Five devices in state READY are still five devices in state READY after the disconnect.\<close>

theorem disconnect_keeps_fields_witness:
  "map_sum id (\<lambda>st. (v3_is_connected st, v3_total_devices st, v3_system_state st))
     (v3_disconnect (v3_connected\<lparr>v3_total_devices := 5, v3_system_state := ''READY''\<rparr>))
     = Inr (False, 5, ''READY'')
   \<and> v1_device_count_label (v1_toggle_connection id (v1_connected\<lparr>v1_total_devices := 5\<rparr>)) = ''0''
   \<and> v1_total_devices (v1_toggle_connection id (v1_connected\<lparr>v1_total_devices := 5\<rparr>)) = 5"
proof -
  have p3: "(case v3_serial_port (v3_connected\<lparr>v3_total_devices := 5, v3_system_state := ''READY''\<rparr>) of
               None \<Rightarrow> True | Some p \<Rightarrow> \<not> is_open p \<or> close_error p = None)"
    by (simp add: v3_connected_fields fresh_port_def)
  have p1: "v1_is_connected (v1_connected\<lparr>v1_total_devices := 5\<rparr>)
            \<and> (case v1_serial_port (v1_connected\<lparr>v1_total_devices := 5\<rparr>) of
                 None \<Rightarrow> True | Some p \<Rightarrow> close_error p = None)"
    by (simp add: v1_connected_def fresh_port_def)
  note t = disconnect_keeps_fields [OF refl refl refl,
      of "v3_connected\<lparr>v3_total_devices := 5, v3_system_state := ''READY''\<rparr>"
         "v1_connected\<lparr>v1_total_devices := 5\<rparr>" id]
  from t p3 obtain t3 where
    d: "v3_disconnect (v3_connected\<lparr>v3_total_devices := 5, v3_system_state := ''READY''\<rparr>) = Inr t3"
       "\<not> v3_is_connected t3" "v3_total_devices t3 = 5" "v3_system_state t3 = ''READY''"
    by auto
  from t p1 have
    "v1_device_count_label (v1_toggle_connection id (v1_connected\<lparr>v1_total_devices := 5\<rparr>)) = ''0''"
    "v1_total_devices (v1_toggle_connection id (v1_connected\<lparr>v1_total_devices := 5\<rparr>)) = 5"
    by simp_all
  then show ?thesis
    by (simp add: d)
qed

text \<open>
  After the disconnect the device count is 5, not 0, the state is READY, not Unknown, and
  the group total, frame count and interframe delay of SOLAR_GUI_V3.py are 1, 10 and 10.
\<close>

theorem disconnect_no_reset_counterexample:
  "map_sum id (\<lambda>st. (v3_total_devices st, v3_system_state st, v3_group_total_var st,
                      v3_frame_count_var st, v3_interframe_delay_var st))
     (v3_disconnect (v3_connected\<lparr>v3_total_devices := 5, v3_system_state := ''READY''\<rparr>))
   = Inr (5, ''READY'', Some 1, Some 10, Some 10)
   \<and> v1_total_devices (v1_toggle_connection id (v1_connected\<lparr>v1_total_devices := 5\<rparr>)) = 5"
  by (simp add: v3_disconnect_def v3_connected_def fresh_port_def port_close_def
      v3_log_message_keeps v1_toggle_connection_def v1_connected_def v1_init_def v1_log_message_keeps
      v3_init_def v3_attributes_def v3_update_group_id_list_def
      v3_update_led_device_list_def v3_update_servo_device_list_def IntVar_get_def Let_def
      split: sum.splits)

section \<open>Status lines\<close>

lemma py_getitem_Cons_Suc: "py_getitem (x # xs) (Suc i) = py_getitem xs i"
  by (simp add: py_getitem_def)

lemma after_colon_TOTAL: "after_colon (''TOTAL:'' @ s) = Inr s"
  by (simp add: after_colon_def py_getitem_def)

lemma after_colon_STATE: "after_colon (''STATE:'' @ s) = Inr s"
  by (simp add: after_colon_def py_getitem_def)

lemma v3_update_lists_total:
  "v3_total_devices (v3_update_led_device_list st) = v3_total_devices st"
  "v3_total_devices (v3_update_servo_device_list st) = v3_total_devices st"
  by (simp_all add: v3_update_led_device_list_def v3_update_servo_device_list_def Let_def)

text \<open>
  SOLAR_GUI_V3.py: a line \<open>TOTAL:<n>\<close> sets the device count to \<open>n\<close>, for every integer
  \<open>n\<close> that \<open>int()\<close> reads back; a payload that \<open>int()\<close> rejects is dropped after the line
  has been logged, and the handler returns normally.
\<close>

lemma v3_total_line:
  assumes "length (str_nat (nat \<bar>n\<bar>)) \<le> int_max_str_digits"
  shows "\<exists>st'. v3_handle_serial_message (''TOTAL:'' @ str_int n) st = Inr st' \<and> v3_total_devices st' = n"
  by (simp add: v3_handle_serial_message_def v3_try_int_def after_colon_TOTAL [simplified]
      py_int_str_int [OF assms] v3_update_lists_total Let_def)

lemma v3_total_not_numeric:
  assumes "py_int payload = Inl ValueError"
  shows "v3_handle_serial_message (''TOTAL:'' @ payload) st =
           Inr (v3_log_message (''<< TOTAL:'' @ payload) None st)"
  using assms
  by (simp add: v3_handle_serial_message_def v3_try_int_def after_colon_TOTAL [simplified] Let_def)

text \<open>
  SOLAR_GUI.py reads the text between the first and the second colon: a line
  \<open>TOTAL:<n>\<close> sets the device count to \<open>n\<close> as well, and a payload without a colon that
  \<open>int()\<close> rejects makes \<open>process_serial_data\<close> raise ValueError.
\<close>

lemma v1_total_line:
  assumes "length (str_nat (nat \<bar>n\<bar>)) \<le> int_max_str_digits"
  shows "v1_process_serial_data (''TOTAL:'' @ str_int n) st =
     Inr (st\<lparr>v1_total_devices := n, v1_device_count_label := str_int n,
             v1_after := v1_after st @ [(0, Update_device_lists)]\<rparr>)"
proof -
  have tw: "takeWhile (\<lambda>c. c \<noteq> CHR '':'') (str_int n) = str_int n"
    using str_int_no_colon [of n] by (auto simp: takeWhile_eq_all_conv)
  show ?thesis
    by (simp add: v1_process_serial_data_def py_getitem_Cons_Suc getitem0_split tw
        py_int_str_int [OF assms])
qed

lemma v1_total_not_numeric:
  assumes "py_int payload = Inl ValueError" and "CHR '':'' \<notin> set payload"
  shows "v1_process_serial_data (''TOTAL:'' @ payload) st = Inl ValueError"
proof -
  have tw: "takeWhile (\<lambda>c. c \<noteq> CHR '':'') payload = payload"
    using assms(2) by (auto simp: takeWhile_eq_all_conv)
  show ?thesis
    by (simp add: v1_process_serial_data_def py_getitem_Cons_Suc getitem0_split tw assms(1))
qed

lemma v3_log_message_total: "v3_total_devices (v3_log_message m tag st) = v3_total_devices st"
  by (simp add: v3_log_message_def v3_append_to_log_def Let_def)

text \<open>
  Claim C2, as amended.  For every integer \<open>n \<ge> 0\<close> whose decimal form has at most 4300
  digits (the limit of \<open>int()\<close>), the line \<open>TOTAL:<n>\<close> sets the device count to \<open>n\<close> in both
  programs.  A \<open>TOTAL:\<close> line whose payload \<open>int()\<close> rejects leaves the device count as it
  was and is not fatal: SOLAR_GUI_V3.py logs the line and returns normally;
  in SOLAR_GUI.py, for a payload without a further colon, \<open>process_serial_data\<close> raises
  ValueError before it assigns anything, the toolkit reports the exception, and the
  lines that follow are dispatched as usual.
\<close>

theorem total_line_dispatch:
  assumes "0 \<le> n" and "length (str_int n) \<le> int_max_str_digits"
      and "py_int bad = Inl ValueError"
  shows "(\<exists>t3. v3_handle_serial_message (''TOTAL:'' @ str_int n) s3 = Inr t3 \<and> v3_total_devices t3 = n)
       \<and> v1_total_devices (v1_run [V1_line (''TOTAL:'' @ str_int n)] s1) = n
       \<and> v1_reported (v1_run [V1_line (''TOTAL:'' @ str_int n)] s1) = v1_reported s1
       \<and> v3_handle_serial_message (''TOTAL:'' @ bad) s3 =
           Inr (v3_log_message (''<< TOTAL:'' @ bad) None s3)
       \<and> v3_total_devices (v3_log_message (''<< TOTAL:'' @ bad) None s3) = v3_total_devices s3
       \<and> (CHR '':'' \<notin> set bad \<longrightarrow>
            v1_process_serial_data (''TOTAL:'' @ bad) s1 = Inl ValueError
          \<and> v1_run (V1_line (''TOTAL:'' @ bad) # evs) s1 =
              v1_run evs (s1\<lparr>v1_reported := v1_reported s1 @ [ValueError]\<rparr>))"
proof -
  have len: "length (str_nat (nat \<bar>n\<bar>)) \<le> int_max_str_digits"
    using assms(1,2) by (simp add: str_int_def)
  have c1: "\<exists>t3. v3_handle_serial_message (''TOTAL:'' @ str_int n) s3 = Inr t3 \<and> v3_total_devices t3 = n"
    by (rule v3_total_line [OF len])
  have r1: "v1_run [V1_line (''TOTAL:'' @ str_int n)] s1 =
              s1\<lparr>v1_total_devices := n, v1_device_count_label := str_int n,
                  v1_after := v1_after s1 @ [(0, Update_device_lists)]\<rparr>"
    using v1_total_line [OF len, of s1] by simp
  have c2: "v1_total_devices (v1_run [V1_line (''TOTAL:'' @ str_int n)] s1) = n"
    unfolding r1 by simp
  have c3: "v1_reported (v1_run [V1_line (''TOTAL:'' @ str_int n)] s1) = v1_reported s1"
    unfolding r1 by simp
  have c4: "v3_handle_serial_message (''TOTAL:'' @ bad) s3 =
           Inr (v3_log_message (''<< TOTAL:'' @ bad) None s3)"
    by (rule v3_total_not_numeric [OF assms(3)])
  have c5: "v3_total_devices (v3_log_message (''<< TOTAL:'' @ bad) None s3) = v3_total_devices s3"
    by (rule v3_log_message_total)
  have c6: "CHR '':'' \<notin> set bad \<longrightarrow>
            v1_process_serial_data (''TOTAL:'' @ bad) s1 = Inl ValueError
          \<and> v1_run (V1_line (''TOTAL:'' @ bad) # evs) s1 =
              v1_run evs (s1\<lparr>v1_reported := v1_reported s1 @ [ValueError]\<rparr>)"
  proof
    assume "CHR '':'' \<notin> set bad"
    then have e: "v1_process_serial_data (''TOTAL:'' @ bad) s1 = Inl ValueError"
      by (rule v1_total_not_numeric [OF assms(3)])
    have "v1_run (V1_line (''TOTAL:'' @ bad) # evs) s1 =
            v1_run evs (s1\<lparr>v1_reported := v1_reported s1 @ [ValueError]\<rparr>)"
      unfolding v1_run.simps e by simp
    with e show "v1_process_serial_data (''TOTAL:'' @ bad) s1 = Inl ValueError
          \<and> v1_run (V1_line (''TOTAL:'' @ bad) # evs) s1 =
              v1_run evs (s1\<lparr>v1_reported := v1_reported s1 @ [ValueError]\<rparr>)"
      by blast
  qed
  from c1 c2 c3 c4 c5 c6 show ?thesis by blast
qed

lemma total_examples:
  "str_int 5 = ''5''" "py_int ''abc'' = Inl ValueError"
  by code_simp+

text \<open>
  The line \<open>TOTAL:abc\<close> is reported and changes nothing; the line \<open>TOTAL:5\<close> after it
  sets the device count to 5.
\<close>

theorem total_line_dispatch_witness:
  "map_sum id v3_total_devices (v3_handle_serial_message ''TOTAL:5'' (v3_init noon)) = Inr 5
   \<and> map_sum id v3_total_devices (v3_handle_serial_message ''TOTAL:abc'' (v3_init noon)) = Inr 0
   \<and> v1_total_devices (v1_run [V1_line ''TOTAL:abc'', V1_line ''TOTAL:5''] (v1_init noon)) = 5
   \<and> v1_reported (v1_run [V1_line ''TOTAL:abc'', V1_line ''TOTAL:5''] (v1_init noon)) = [ValueError]"
proof -
  have n: "(0 :: int) \<le> 5" and l: "length (str_int 5) \<le> int_max_str_digits"
    by (simp_all add: total_examples int_max_str_digits_def)
  have c: "CHR '':'' \<notin> set ''abc''" by simp
  have z: "v3_total_devices (v3_init noon) = 0"
    by (simp add: v3_init_def v3_attributes_def v3_update_group_id_list_def
        v3_update_led_device_list_def v3_update_servo_device_list_def IntVar_get_def Let_def
        split: sum.splits)
  note a = total_line_dispatch [OF n l total_examples(2), of "v3_init noon" "v1_init noon"
      "[V1_line ''TOTAL:5'']"]
  note b = total_line_dispatch [OF n l total_examples(2), of "v3_init noon"
      "(v1_init noon)\<lparr>v1_reported := v1_reported (v1_init noon) @ [ValueError]\<rparr>" "[]"]
  from a obtain t3 where
    t: "v3_handle_serial_message ''TOTAL:5'' (v3_init noon) = Inr t3" "v3_total_devices t3 = 5"
    by (auto simp: total_examples)
  from a have
    u: "v3_handle_serial_message ''TOTAL:abc'' (v3_init noon) =
          Inr (v3_log_message ''<< TOTAL:abc'' None (v3_init noon))"
       "v3_total_devices (v3_log_message ''<< TOTAL:abc'' None (v3_init noon)) = 0"
    by (simp_all add: z)
  from a c have
    r: "v1_run [V1_line ''TOTAL:abc'', V1_line ''TOTAL:5''] (v1_init noon) =
          v1_run [V1_line ''TOTAL:5'']
            ((v1_init noon)\<lparr>v1_reported := v1_reported (v1_init noon) @ [ValueError]\<rparr>)"
    by simp
  from b have
    v: "v1_total_devices (v1_run [V1_line ''TOTAL:5'']
          ((v1_init noon)\<lparr>v1_reported := v1_reported (v1_init noon) @ [ValueError]\<rparr>)) = 5"
       "v1_reported (v1_run [V1_line ''TOTAL:5'']
          ((v1_init noon)\<lparr>v1_reported := v1_reported (v1_init noon) @ [ValueError]\<rparr>)) = [ValueError]"
    by (simp_all add: total_examples v1_init_def)
  have w: "v1_total_devices (v1_run [V1_line ''TOTAL:abc'', V1_line ''TOTAL:5''] (v1_init noon)) = 5"
    "v1_reported (v1_run [V1_line ''TOTAL:abc'', V1_line ''TOTAL:5''] (v1_init noon)) = [ValueError]"
    by (simp_all only: r v)
  show ?thesis
    by (simp only: t u w map_sum.simps id_apply simp_thms)
qed

text \<open>
  The integer \<open>10 ^ 4300\<close> has 4301 digits: \<open>int()\<close> rejects the payload, and
  SOLAR_GUI_V3.py leaves the device count at 0.
\<close>

theorem total_line_digit_limit_counterexample:
  "(0 :: int) \<le> 10 ^ int_max_str_digits
   \<and> (10 :: int) ^ int_max_str_digits \<noteq> 0
   \<and> map_sum id v3_total_devices
       (v3_handle_serial_message (''TOTAL:'' @ str_int (10 ^ int_max_str_digits)) (v3_init noon))
     = Inr 0"
proof -
  have z: "v3_total_devices (v3_init noon) = 0"
    by (simp add: v3_init_def v3_attributes_def v3_update_group_id_list_def
        v3_update_led_device_list_def v3_update_servo_device_list_def IntVar_get_def Let_def
        split: sum.splits)
  show ?thesis
    using v3_total_not_numeric [OF py_int_pow10_limit, of "v3_init noon"]
    by (simp add: v3_log_message_total z)
qed

text \<open>
  SOLAR_GUI_V3.py sets the system state to everything after the first colon.
  SOLAR_GUI.py splits at every colon and takes the second piece: the state it stores
  stops before the next colon.
\<close>

lemma v3_state_line:
  "\<exists>st'. v3_handle_serial_message (''STATE:'' @ s) st = Inr st' \<and> v3_system_state st' = s"
  by (simp add: v3_handle_serial_message_def after_colon_STATE [simplified] Let_def)

lemma v1_state_line:
  "v1_process_serial_data (''STATE:'' @ s) st =
     Inr (st\<lparr>v1_system_state := takeWhile (\<lambda>c. c \<noteq> CHR '':'') s,
             v1_state_label := takeWhile (\<lambda>c. c \<noteq> CHR '':'') s\<rparr>)"
  by (simp add: v1_process_serial_data_def py_getitem_Cons_Suc getitem0_split)

text \<open>
  Claim C7.  The claim asks that a line \<open>STATE:<s>\<close> sets the system state to \<open>s\<close>, also
  when \<open>s\<close> contains colons.  On the line \<open>STATE:RUN:1\<close>, SOLAR_GUI.py stores \<open>RUN\<close>
  where SOLAR_GUI_V3.py stores \<open>RUN:1\<close>.
\<close>

theorem v1_state_line_truncated:
  "map_sum id v1_system_state (v1_process_serial_data ''STATE:RUN:1'' (v1_init noon)) = Inr ''RUN''
   \<and> map_sum id v3_system_state (v3_handle_serial_message ''STATE:RUN:1'' (v3_init noon)) = Inr ''RUN:1''"
  using v1_state_line [of "''RUN:1''" "v1_init noon"] v3_state_line [of "''RUN:1''" "v3_init noon"]
  by auto

section \<open>The log and the DEBUG filter\<close>

subsection \<open>What the log widget of SOLAR_GUI_V3.py shows\<close>

lemma v3_should_filter_flag:
  "v3_debug_filter_var st = v3_debug_filter_var st' \<Longrightarrow>
   v3_should_filter_message m st = v3_should_filter_message m st'"
  by (simp add: v3_should_filter_message_def)

lemma v3_should_filter_contains:
  "v3_should_filter_message m st = (v3_debug_filter_var st \<and> contains m ''DEBUG:'')"
  using startswith_contains [of m "''DEBUG:''"]
  by (auto simp: v3_should_filter_message_def)

lemma v3_refresh_loop_flag:
  "v3_debug_filter_var st = v3_debug_filter_var st' \<Longrightarrow>
   v3_refresh_loop st buf shown = v3_refresh_loop st' buf shown"
proof (induction buf arbitrary: shown)
  case Nil
  show ?case by simp
next
  case (Cons e buf)
  obtain message tag where e: "e = (message, tag)" by (cases e)
  show ?case
    using Cons.IH Cons.prems
    by (simp add: e Let_def v3_should_filter_flag [OF Cons.prems])
qed

lemma v3_refresh_loop_append:
  "v3_refresh_loop st (a @ b) shown = v3_refresh_loop st b (v3_refresh_loop st a shown)"
proof (induction a arbitrary: shown)
  case Nil
  show ?case by simp
next
  case (Cons e a)
  obtain message tag where e: "e = (message, tag)" by (cases e)
  show ?case
    by (simp add: e Let_def Cons.IH)
qed

text \<open>A time stamp holds no space, so the replay finds the original message behind it.\<close>

lemma pad2_no_space: "CHR '' '' \<notin> set (pad2 n)"
  by (simp add: pad2_def str_nat_no_space)

lemma strftime_no_space: "CHR '' '' \<notin> set (strftime_HMS t)"
  by (cases t) (simp add: strftime_HMS_def pad2_no_space)

lemma stamped_split:
  "py_split1 CHR '' '' ((''['' @ strftime_HMS t @ '']'') @ '' '' @ m) = [''['' @ strftime_HMS t @ '']'', m]"
proof -
  have "CHR '' '' \<notin> set (''['' @ strftime_HMS t @ '']'')"
    by (simp add: strftime_no_space)
  then have "py_split1 CHR '' '' ((''['' @ strftime_HMS t @ '']'') @ CHR '' '' # m)
             = [''['' @ strftime_HMS t @ '']'', m]"
    by (rule split1_append)
  then show ?thesis by simp
qed

lemma v3_refresh_one_stamped:
  "v3_refresh_loop st [((''['' @ strftime_HMS t @ '']'') @ '' '' @ m, tag)] shown =
     (if \<not> v3_should_filter_message m st
      then v3_insert_end ((''['' @ strftime_HMS t @ '']'') @ '' '' @ m) tag shown
      else shown)"
  unfolding v3_refresh_loop.simps Let_def stamped_split by simp

lemma v3_log_message_buffer:
  "v3_log_buffer (v3_log_message m tag st) =
     v3_log_buffer st @ [((''['' @ strftime_HMS (v3_clock st (v3_ticks st)) @ '']'') @ '' '' @ m, tag)]"
  "v3_ticks (v3_log_message m tag st) = Suc (v3_ticks st)"
  "v3_clock (v3_log_message m tag st) = v3_clock st"
  "v3_debug_filter_var (v3_log_message m tag st) = v3_debug_filter_var st"
  by (simp_all add: v3_log_message_def v3_append_to_log_def Let_def)

lemma v3_log_message_text:
  "v3_log_text (v3_log_message m tag st) =
     (if v3_debug_filter_var st \<and> contains m ''DEBUG:'' then v3_log_text st
      else v3_insert_end ((''['' @ strftime_HMS (v3_clock st (v3_ticks st)) @ '']'') @ '' '' @ m) tag
             (v3_log_text st))"
  by (auto simp: v3_log_message_def Let_def v3_should_filter_contains v3_append_to_log_def)

lemma v3_click_buffer:
  "v3_log_buffer (v3_click_debug_filter st) = v3_log_buffer st"
  "v3_ticks (v3_click_debug_filter st) = v3_ticks st"
  "v3_clock (v3_click_debug_filter st) = v3_clock st"
  "v3_debug_filter_var (v3_click_debug_filter st) = (\<not> v3_debug_filter_var st)"
  by (simp_all add: v3_click_debug_filter_def v3_refresh_log_display_def)

text \<open>
  The invariant of the log: the widget shows what a replay of the buffer under the current
  flag gives.  \<open>log_message\<close> keeps it, a click on the check button establishes it.
\<close>

lemma v3_log_message_consistent:
  assumes "v3_log_text st = v3_refresh_loop st (v3_log_buffer st) []"
  shows "v3_log_text (v3_log_message m tag st) =
           v3_refresh_loop (v3_log_message m tag st) (v3_log_buffer (v3_log_message m tag st)) []"
proof -
  let ?full = "(''['' @ strftime_HMS (v3_clock st (v3_ticks st)) @ '']'') @ '' '' @ m"
  have flag: "v3_debug_filter_var (v3_log_message m tag st) = v3_debug_filter_var st"
    by (rule v3_log_message_buffer)
  have buf: "v3_log_buffer (v3_log_message m tag st) = v3_log_buffer st @ [(?full, tag)]"
    by (rule v3_log_message_buffer)
  have "v3_refresh_loop (v3_log_message m tag st) (v3_log_buffer (v3_log_message m tag st)) []
        = v3_refresh_loop st (v3_log_buffer st @ [(?full, tag)]) []"
    unfolding buf by (rule v3_refresh_loop_flag [OF flag])
  also have "\<dots> = v3_refresh_loop st [(?full, tag)] (v3_log_text st)"
    by (simp add: v3_refresh_loop_append assms)
  also have "\<dots> = v3_log_text (v3_log_message m tag st)"
    unfolding v3_refresh_one_stamped v3_log_message_text v3_should_filter_contains by simp
  finally show ?thesis by simp
qed

lemma v3_click_consistent:
  "v3_log_text (v3_click_debug_filter st) =
     v3_refresh_loop (v3_click_debug_filter st) (v3_log_buffer (v3_click_debug_filter st)) []"
proof -
  have "v3_debug_filter_var (v3_click_debug_filter st)
        = v3_debug_filter_var (st\<lparr>v3_debug_filter_var := \<not> v3_debug_filter_var st\<rparr>)"
    by (simp add: v3_click_debug_filter_def v3_refresh_log_display_def)
  from v3_refresh_loop_flag [OF this] show ?thesis
    by (simp add: v3_click_debug_filter_def v3_refresh_log_display_def)
qed

lemma v3_run_consistent:
  "v3_log_text st = v3_refresh_loop st (v3_log_buffer st) [] \<Longrightarrow>
   v3_log_text (v3_run evs st) = v3_refresh_loop (v3_run evs st) (v3_log_buffer (v3_run evs st)) []"
proof (induction evs arbitrary: st)
  case Nil
  then show ?case by simp
next
  case (Cons ev evs)
  show ?case
  proof (cases ev)
    case (V3_log m tag)
    then show ?thesis
      using Cons.IH [OF v3_log_message_consistent [OF Cons.prems]] by simp
  next
    case V3_click_filter
    then show ?thesis
      using Cons.IH [OF v3_click_consistent] by simp
  qed
qed

text \<open>The buffer, the clock and its reading count do not depend on the clicks.\<close>

lemma v3_run_buffer:
  "v3_log_buffer st = v3_log_buffer st' \<Longrightarrow> v3_ticks st = v3_ticks st' \<Longrightarrow>
   v3_clock st = v3_clock st' \<Longrightarrow>
   v3_log_buffer (v3_run evs st) = v3_log_buffer (v3_run (v3_logs_only evs) st')"
proof (induction evs arbitrary: st st')
  case Nil
  then show ?case by simp
next
  case (Cons ev evs)
  show ?case
  proof (cases ev)
    case (V3_log m tag)
    show ?thesis
      unfolding V3_log v3_logs_only.simps v3_run.simps
      by (rule Cons.IH) (simp_all add: v3_log_message_buffer Cons.prems)
  next
    case V3_click_filter
    show ?thesis
      unfolding V3_click_filter v3_logs_only.simps v3_run.simps
      by (rule Cons.IH) (simp_all add: v3_click_buffer Cons.prems)
  qed
qed

lemma v3_run_logs_only_flag:
  "v3_debug_filter_var (v3_run (v3_logs_only evs) st) = v3_debug_filter_var st"
proof (induction evs arbitrary: st)
  case Nil
  show ?case by simp
next
  case (Cons ev evs)
  show ?case
    by (cases ev) (simp_all add: Cons.IH v3_log_message_buffer)
qed

lemma v3_toggling_same_view:
  assumes ok: "v3_log_text st = v3_refresh_loop st (v3_log_buffer st) []"
      and on0: "v3_debug_filter_var st"
      and on: "v3_debug_filter_var (v3_run evs st)"
  shows "v3_log_text (v3_run evs st) = v3_log_text (v3_run (v3_logs_only evs) st)"
proof -
  have b: "v3_log_buffer (v3_run evs st) = v3_log_buffer (v3_run (v3_logs_only evs) st)"
    by (rule v3_run_buffer) simp_all
  have f: "v3_debug_filter_var (v3_run evs st) = v3_debug_filter_var (v3_run (v3_logs_only evs) st)"
    using on on0 by (simp add: v3_run_logs_only_flag)
  have "v3_log_text (v3_run evs st) = v3_refresh_loop (v3_run evs st) (v3_log_buffer (v3_run evs st)) []"
    by (rule v3_run_consistent [OF ok])
  also have "\<dots> = v3_refresh_loop (v3_run (v3_logs_only evs) st)
                     (v3_log_buffer (v3_run (v3_logs_only evs) st)) []"
    unfolding b by (rule v3_refresh_loop_flag [OF f])
  also have "\<dots> = v3_log_text (v3_run (v3_logs_only evs) st)"
    by (rule v3_run_consistent [OF ok, symmetric])
  finally show ?thesis .
qed

text \<open>
  Claim C3, as amended.  In SOLAR_GUI_V3.py, start from the state after \<open>__init__\<close>, where
  the filter is on, and take any sequence of \<open>log_message\<close> calls and clicks on the check
  button that ends with the filter on: the widget then shows exactly what it would show
  had the same messages been logged with no click at all, and the buffer is the same; a
  click never changes the buffer.  In SOLAR_GUI.py there is no buffer: the filter acts
  once, when a line arrives (with the flag set, a line that starts with \<open>DEBUG:\<close> is
  dropped and leaves no trace), and changing the flag changes nothing that is shown.
\<close>

theorem debug_filter_replay:
  assumes "v3_debug_filter_var (v3_run evs (v3_init clock))"
  shows "v3_log_text (v3_run evs (v3_init clock)) = v3_log_text (v3_run (v3_logs_only evs) (v3_init clock))
       \<and> v3_log_buffer (v3_run evs (v3_init clock)) = v3_log_buffer (v3_run (v3_logs_only evs) (v3_init clock))
       \<and> v3_log_buffer (v3_click_debug_filter s3) = v3_log_buffer s3
       \<and> (v1_filter_debug_var s1 \<and> startswith d ''DEBUG:'' \<longrightarrow> v1_process_serial_data d s1 = Inr s1)
       \<and> v1_log_text (s1\<lparr>v1_filter_debug_var := b\<rparr>) = v1_log_text s1"
proof -
  have ok: "v3_log_text (v3_init clock) = v3_refresh_loop (v3_init clock) (v3_log_buffer (v3_init clock)) []"
    by (simp add: v3_init_fields)
  have c1: "v3_log_text (v3_run evs (v3_init clock)) = v3_log_text (v3_run (v3_logs_only evs) (v3_init clock))"
    by (rule v3_toggling_same_view [OF ok _ assms]) (simp add: v3_init_fields)
  have c2: "v3_log_buffer (v3_run evs (v3_init clock)) = v3_log_buffer (v3_run (v3_logs_only evs) (v3_init clock))"
    by (rule v3_run_buffer) simp_all
  have c3: "v3_log_buffer (v3_click_debug_filter s3) = v3_log_buffer s3"
    by (rule v3_click_buffer)
  have c4: "v1_filter_debug_var s1 \<and> startswith d ''DEBUG:'' \<longrightarrow> v1_process_serial_data d s1 = Inr s1"
    by (simp add: v1_process_serial_data_def)
  have c5: "v1_log_text (s1\<lparr>v1_filter_debug_var := b\<rparr>) = v1_log_text s1"
    by simp
  from c1 c2 c3 c4 c5 show ?thesis by blast
qed

text \<open>
  Filter off, a DEBUG line and a plain line logged, filter on again: only the plain line
  is shown, both are in the buffer.
\<close>

theorem debug_filter_replay_witness:
  "v3_log_text (v3_run [V3_click_filter, V3_log ''DEBUG: boot'' None, V3_log ''ready'' None,
                        V3_click_filter] (v3_init noon))
     = [(''[12:00:00] ready'' @ [CHR 0x0A], None)]
   \<and> v3_log_buffer (v3_run [V3_click_filter, V3_log ''DEBUG: boot'' None, V3_log ''ready'' None,
                             V3_click_filter] (v3_init noon))
     = [(''[12:00:00] DEBUG: boot'', None), (''[12:00:00] ready'', None)]"
proof -
  have on: "v3_debug_filter_var (v3_run [V3_click_filter, V3_log ''DEBUG: boot'' None,
              V3_log ''ready'' None, V3_click_filter] (v3_init noon))"
    by (simp add: v3_click_buffer v3_log_message_buffer v3_init_fields)
  have logs: "v3_logs_only [V3_click_filter, V3_log ''DEBUG: boot'' None, V3_log ''ready'' None,
                V3_click_filter] = [V3_log ''DEBUG: boot'' None, V3_log ''ready'' None]"
    by simp
  have t: "v3_log_text (v3_run [V3_log ''DEBUG: boot'' None, V3_log ''ready'' None] (v3_init noon))
             = [(''[12:00:00] ready'' @ [CHR 0x0A], None)]"
    by (simp add: v3_log_message_text v3_log_message_buffer v3_init_fields noon_def strftime_noon
        v3_insert_end_def tag_given_def newline_def)
  have b: "v3_log_buffer (v3_run [V3_log ''DEBUG: boot'' None, V3_log ''ready'' None] (v3_init noon))
             = [(''[12:00:00] DEBUG: boot'', None), (''[12:00:00] ready'', None)]"
    by (simp add: v3_log_message_buffer v3_init_fields noon_def strftime_noon)
  show ?thesis
    using debug_filter_replay [OF on] by (simp only: logs t b simp_thms)
qed

text \<open>
  SOLAR_GUI.py: a DEBUG line that arrives while the filter is off stays in the log after
  the filter is switched on again; with the filter on all the time it never appears.
\<close>

theorem v1_filter_not_replayed_counterexample:
  "(\<lambda>st. (v1_filter_debug_var st, v1_log_text st, v1_reported st))
     (v1_run [V1_click_filter, V1_line ''DEBUG:x'', V1_click_filter] (v1_init noon))
     = (True, [''[12:00:00] DEBUG:x'' @ [CHR 0x0A]], [])
   \<and> (\<lambda>st. (v1_filter_debug_var st, v1_log_text st, v1_reported st))
       (v1_run [V1_line ''DEBUG:x''] (v1_init noon)) = (True, [], [])"
  by (simp add: v1_process_serial_data_def v1_init_def v1_log_message_def is_detail_line_def
      noon_def strftime_noon newline_def Let_def)

subsection \<open>Error and emergency lines\<close>

lemma v1_ERR_line:
  assumes "startswith d ''ERR:''"
  shows "v1_process_serial_data d st = Inr (v1_log_message ((mark_cross @ '' Error: '') @ d) st)"
proof -
  from startswithD [OF assms] obtain t where d: "d = ''ERR:'' @ t" ..
  show ?thesis
    unfolding d by (simp add: v1_process_serial_data_def)
qed

lemma v1_EMERGENCY_line:
  assumes "startswith d ''EMERGENCY:''"
  shows "v1_process_serial_data d st = Inr (v1_log_message ((mark_siren @ '' '') @ d) st)"
proof -
  from startswithD [OF assms] obtain t where d: "d = ''EMERGENCY:'' @ t" ..
  show ?thesis
    unfolding d by (simp add: v1_process_serial_data_def)
qed

lemma v1_ERROR_line:
  assumes "startswith d ''ERROR:''"
  shows "v1_process_serial_data d st = Inr (v1_log_message ([] @ d) st)"
proof -
  from startswithD [OF assms] obtain t where d: "d = ''ERROR:'' @ t" ..
  show ?thesis
    unfolding d by (simp add: v1_process_serial_data_def is_detail_line_def)
qed

lemma v3_error_line:
  assumes "startswith d ''ERR:'' \<or> startswith d ''ERROR:''"
  shows "v3_handle_serial_message d st =
           Inr (v3_log_message d (Some ''error'') (v3_log_message (''<< '' @ d) None st))"
proof -
  from assms startswithD obtain t where "d = ''ERR:'' @ t \<or> d = ''ERROR:'' @ t"
    by blast
  then show ?thesis
  proof
    assume d: "d = ''ERR:'' @ t"
    show ?thesis unfolding d by (simp add: v3_handle_serial_message_def Let_def)
  next
    assume d: "d = ''ERROR:'' @ t"
    show ?thesis unfolding d by (simp add: v3_handle_serial_message_def Let_def)
  qed
qed

lemma v3_emergency_line:
  assumes "startswith d ''EMERGENCY:''"
  shows "v3_handle_serial_message d st = Inr (v3_log_message (''<< '' @ d) None st)"
proof -
  from startswithD [OF assms] obtain t where d: "d = ''EMERGENCY:'' @ t" ..
  show ?thesis
    unfolding d by (simp add: v3_handle_serial_message_def Let_def)
qed

lemma v3_incoming_text:
  "v3_log_text (v3_log_message (''<< '' @ d) None st) =
     (if v3_debug_filter_var st \<and> contains d ''DEBUG:'' then v3_log_text st
      else v3_log_text st @
           [((''['' @ strftime_HMS (v3_clock st (v3_ticks st)) @ '']'') @ '' << '' @ d @ newline, None)])"
  by (simp add: v3_log_message_text v3_insert_end_def tag_given_def)

lemma v3_error_text:
  "v3_log_text (v3_log_message d (Some ''error'') (v3_log_message (''<< '' @ d) None st)) =
     (if v3_debug_filter_var st \<and> contains d ''DEBUG:'' then v3_log_text st
      else v3_log_text st @
           [((''['' @ strftime_HMS (v3_clock st (v3_ticks st)) @ '']'') @ '' << '' @ d @ newline, None),
            ((''['' @ strftime_HMS (v3_clock st (Suc (v3_ticks st))) @ '']'') @ '' '' @ d @ newline,
             Some ''error'')])"
  by (simp add: v3_log_message_text [of d] v3_incoming_text [simplified] v3_log_message_buffer
      v3_insert_end_def tag_given_def)

lemma v3_error_buffer:
  "v3_log_buffer (v3_log_message d (Some ''error'') (v3_log_message (''<< '' @ d) None st)) =
     v3_log_buffer st @
       [((''['' @ strftime_HMS (v3_clock st (v3_ticks st)) @ '']'') @ '' << '' @ d, None),
        ((''['' @ strftime_HMS (v3_clock st (Suc (v3_ticks st))) @ '']'') @ '' '' @ d, Some ''error'')]"
  by (simp add: v3_log_message_buffer)

text \<open>
  What a replay of the buffer shows after \<open>log_message\<close>: the replay of the buffer before
  it, followed by the new entry unless the flag of the replaying state is on and the
  message contains \<open>DEBUG:\<close>.
\<close>

lemma v3_replay_log_message:
  "v3_refresh_loop st0 (v3_log_buffer (v3_log_message m tag st)) [] =
     v3_refresh_loop st0 (v3_log_buffer st) [] @
     (if v3_debug_filter_var st0 \<and> contains m ''DEBUG:'' then []
      else v3_insert_end ((''['' @ strftime_HMS (v3_clock st (v3_ticks st)) @ '']'') @ '' '' @ m) tag [])"
  unfolding v3_log_message_buffer(1) v3_refresh_loop_append v3_refresh_one_stamped
    v3_should_filter_contains
  by (simp add: v3_insert_end_def)

lemma v3_replay_error_line:
  "v3_refresh_loop st0
     (v3_log_buffer (v3_log_message d (Some ''error'') (v3_log_message (''<< '' @ d) None st))) [] =
     v3_refresh_loop st0 (v3_log_buffer st) [] @
     (if v3_debug_filter_var st0 \<and> contains d ''DEBUG:'' then []
      else [((''['' @ strftime_HMS (v3_clock st (v3_ticks st)) @ '']'') @ '' << '' @ d @ newline, None),
            ((''['' @ strftime_HMS (v3_clock st (Suc (v3_ticks st))) @ '']'') @ '' '' @ d @ newline,
             Some ''error'')])"
  unfolding v3_replay_log_message
  by (simp add: v3_insert_end_def tag_given_def v3_log_message_buffer(2,3))

lemma v3_replay_incoming_line:
  "v3_refresh_loop st0 (v3_log_buffer (v3_log_message (''<< '' @ d) None st)) [] =
     v3_refresh_loop st0 (v3_log_buffer st) [] @
     (if v3_debug_filter_var st0 \<and> contains d ''DEBUG:'' then []
      else [((''['' @ strftime_HMS (v3_clock st (v3_ticks st)) @ '']'') @ '' << '' @ d @ newline, None)])"
  unfolding v3_replay_log_message
  by (simp add: v3_insert_end_def tag_given_def)

lemma v3_refresh_text:
  "v3_log_text (v3_refresh_log_display st) = v3_refresh_loop st (v3_log_buffer st) []"
  by (simp add: v3_refresh_log_display_def)

lemma v3_click_text:
  "v3_log_text (v3_click_debug_filter st) =
     v3_refresh_loop (st\<lparr>v3_debug_filter_var := \<not> v3_debug_filter_var st\<rparr>) (v3_log_buffer st) []"
  by (simp add: v3_click_debug_filter_def v3_refresh_log_display_def)

text \<open>
  The filter being on, let some calls of \<open>log_message\<close> with a message that contains
  \<open>DEBUG:\<close> add the entries \<open>new\<close> to the buffer.  A redisplay shows what it showed before
  them; a click on the check button, which switches the filter off, shows what it would
  have shown before them, followed by \<open>new\<close>.
\<close>

lemma v3_replay_after:
  assumes flag: "v3_debug_filter_var t = v3_debug_filter_var st"
      and buf: "\<And>st0. v3_refresh_loop st0 (v3_log_buffer t) [] =
                  v3_refresh_loop st0 (v3_log_buffer st) [] @
                  (if v3_debug_filter_var st0 \<and> hide then [] else new)"
      and on: "v3_debug_filter_var st" and hide: "hide"
  shows "v3_log_text (v3_refresh_log_display t) = v3_log_text (v3_refresh_log_display st)
       \<and> v3_log_text (v3_click_debug_filter t) = v3_log_text (v3_click_debug_filter st) @ new"
proof -
  let ?t' = "t\<lparr>v3_debug_filter_var := \<not> v3_debug_filter_var t\<rparr>"
  let ?s' = "st\<lparr>v3_debug_filter_var := \<not> v3_debug_filter_var st\<rparr>"
  have "v3_log_text (v3_refresh_log_display t) = v3_refresh_loop t (v3_log_buffer st) []"
    unfolding v3_refresh_text buf using flag on hide by simp
  also have "\<dots> = v3_refresh_loop st (v3_log_buffer st) []"
    by (rule v3_refresh_loop_flag [OF flag])
  finally have a: "v3_log_text (v3_refresh_log_display t) = v3_log_text (v3_refresh_log_display st)"
    by (simp add: v3_refresh_text)
  have g: "v3_debug_filter_var ?t' = v3_debug_filter_var ?s'"
    by (simp add: flag)
  have off: "\<not> v3_debug_filter_var ?t'"
    using flag on by simp
  have "v3_log_text (v3_click_debug_filter t) = v3_refresh_loop ?t' (v3_log_buffer st) [] @ new"
    unfolding v3_click_text buf using off by simp
  also have "v3_refresh_loop ?t' (v3_log_buffer st) [] = v3_log_text (v3_click_debug_filter st)"
    unfolding v3_click_text by (rule v3_refresh_loop_flag [OF g])
  finally have b: "v3_log_text (v3_click_debug_filter t) = v3_log_text (v3_click_debug_filter st) @ new" .
  from a b show ?thesis by blast
qed

lemma v3_error_line_replayed:
  assumes "v3_debug_filter_var st" and "contains d ''DEBUG:''"
  shows "v3_log_text (v3_refresh_log_display
           (v3_log_message d (Some ''error'') (v3_log_message (''<< '' @ d) None st)))
         = v3_log_text (v3_refresh_log_display st)
       \<and> v3_log_text (v3_click_debug_filter
           (v3_log_message d (Some ''error'') (v3_log_message (''<< '' @ d) None st)))
         = v3_log_text (v3_click_debug_filter st) @
           [((''['' @ strftime_HMS (v3_clock st (v3_ticks st)) @ '']'') @ '' << '' @ d @ newline, None),
            ((''['' @ strftime_HMS (v3_clock st (Suc (v3_ticks st))) @ '']'') @ '' '' @ d @ newline,
             Some ''error'')]"
proof (rule v3_replay_after [where hide = "contains d ''DEBUG:''"])
  show "v3_debug_filter_var (v3_log_message d (Some ''error'') (v3_log_message (''<< '' @ d) None st))
        = v3_debug_filter_var st"
    by (simp add: v3_log_message_buffer(4))
  show "v3_refresh_loop st0
          (v3_log_buffer (v3_log_message d (Some ''error'') (v3_log_message (''<< '' @ d) None st))) [] =
        v3_refresh_loop st0 (v3_log_buffer st) [] @
        (if v3_debug_filter_var st0 \<and> contains d ''DEBUG:'' then []
         else [((''['' @ strftime_HMS (v3_clock st (v3_ticks st)) @ '']'') @ '' << '' @ d @ newline, None),
               ((''['' @ strftime_HMS (v3_clock st (Suc (v3_ticks st))) @ '']'') @ '' '' @ d @ newline,
                Some ''error'')])" for st0
    by (rule v3_replay_error_line)
qed (use assms in simp_all)

lemma v3_incoming_line_replayed:
  assumes "v3_debug_filter_var st" and "contains d ''DEBUG:''"
  shows "v3_log_text (v3_refresh_log_display (v3_log_message (''<< '' @ d) None st))
         = v3_log_text (v3_refresh_log_display st)
       \<and> v3_log_text (v3_click_debug_filter (v3_log_message (''<< '' @ d) None st))
         = v3_log_text (v3_click_debug_filter st) @
           [((''['' @ strftime_HMS (v3_clock st (v3_ticks st)) @ '']'') @ '' << '' @ d @ newline, None)]"
proof (rule v3_replay_after [where hide = "contains d ''DEBUG:''"])
  show "v3_debug_filter_var (v3_log_message (''<< '' @ d) None st) = v3_debug_filter_var st"
    by (simp add: v3_log_message_buffer(4))
  show "v3_refresh_loop st0 (v3_log_buffer (v3_log_message (''<< '' @ d) None st)) [] =
        v3_refresh_loop st0 (v3_log_buffer st) [] @
        (if v3_debug_filter_var st0 \<and> contains d ''DEBUG:'' then []
         else [((''['' @ strftime_HMS (v3_clock st (v3_ticks st)) @ '']'') @ '' << '' @ d @ newline, None)])"
    for st0
    by (rule v3_replay_incoming_line)
qed (use assms in simp_all)

text \<open>
  Claim C4, as amended.  In SOLAR_GUI.py a line that starts with \<open>ERR:\<close>, \<open>ERROR:\<close> or
  \<open>EMERGENCY:\<close> is always appended to the visible log, whatever the filter flag and
  whatever else the line contains.  In SOLAR_GUI_V3.py the filter has no exemption: a line
  that starts with \<open>ERR:\<close> or \<open>ERROR:\<close> is stored in the buffer twice (as received, and
  tagged \<open>error\<close>), a line that starts with \<open>EMERGENCY:\<close> once (as received); these
  entries are shown unless the filter is on and the line contains \<open>DEBUG:\<close>.  In that
  case the line is hidden until the filter is switched off: nothing is added to the
  visible log, a redisplay (\<open>refresh_log_display\<close>) shows what it showed before the line
  arrived, and the click on the check button that switches the filter off shows the
  entries of the line, at the end of what that click would have shown before the line
  arrived.
\<close>

theorem error_lines_and_debug_filter:
  assumes "err = (startswith d ''ERR:'' \<or> startswith d ''ERROR:'')"
      and "emergency = startswith d ''EMERGENCY:''"
      and "hidden = (v3_debug_filter_var s3 \<and> contains d ''DEBUG:'')"
      and "stamp0 = ''['' @ strftime_HMS (v3_clock s3 (v3_ticks s3)) @ '']''"
      and "stamp1 = ''['' @ strftime_HMS (v3_clock s3 (Suc (v3_ticks s3))) @ '']''"
  shows "(err \<or> emergency \<longrightarrow>
            (\<exists>pre. v1_process_serial_data d s1 = Inr (v1_log_message (pre @ d) s1)
                  \<and> v1_log_text (v1_log_message (pre @ d) s1) =
                      v1_log_text s1 @
                      [''['' @ strftime_HMS (v1_clock s1 (v1_ticks s1)) @ ''] '' @ (pre @ d) @ newline]))
       \<and> (err \<longrightarrow>
            (\<exists>t3. v3_handle_serial_message d s3 = Inr t3
                 \<and> v3_log_buffer t3 =
                     v3_log_buffer s3 @ [(stamp0 @ '' << '' @ d, None), (stamp1 @ '' '' @ d, Some ''error'')]
                 \<and> v3_log_text t3 =
                     (if hidden then v3_log_text s3
                      else v3_log_text s3 @
                           [(stamp0 @ '' << '' @ d @ newline, None),
                            (stamp1 @ '' '' @ d @ newline, Some ''error'')])
                 \<and> (hidden \<longrightarrow>
                      v3_debug_filter_var t3
                    \<and> v3_log_text (v3_refresh_log_display t3) = v3_log_text (v3_refresh_log_display s3)
                    \<and> \<not> v3_debug_filter_var (v3_click_debug_filter t3)
                    \<and> v3_log_text (v3_click_debug_filter t3) =
                        v3_log_text (v3_click_debug_filter s3) @
                        [(stamp0 @ '' << '' @ d @ newline, None),
                         (stamp1 @ '' '' @ d @ newline, Some ''error'')])))
       \<and> (emergency \<longrightarrow>
            (\<exists>t3. v3_handle_serial_message d s3 = Inr t3
                 \<and> v3_log_buffer t3 = v3_log_buffer s3 @ [(stamp0 @ '' << '' @ d, None)]
                 \<and> v3_log_text t3 =
                     (if hidden then v3_log_text s3
                      else v3_log_text s3 @ [(stamp0 @ '' << '' @ d @ newline, None)])
                 \<and> (hidden \<longrightarrow>
                      v3_debug_filter_var t3
                    \<and> v3_log_text (v3_refresh_log_display t3) = v3_log_text (v3_refresh_log_display s3)
                    \<and> \<not> v3_debug_filter_var (v3_click_debug_filter t3)
                    \<and> v3_log_text (v3_click_debug_filter t3) =
                        v3_log_text (v3_click_debug_filter s3) @
                        [(stamp0 @ '' << '' @ d @ newline, None)])))"
proof -
  have v1: "\<exists>pre. v1_process_serial_data d s1 = Inr (v1_log_message (pre @ d) s1)
                  \<and> v1_log_text (v1_log_message (pre @ d) s1) =
                      v1_log_text s1 @
                      [''['' @ strftime_HMS (v1_clock s1 (v1_ticks s1)) @ ''] '' @ (pre @ d) @ newline]"
    if "err \<or> emergency"
  proof -
    from that assms(1,2) consider "startswith d ''ERR:''" | "startswith d ''ERROR:''"
      | "startswith d ''EMERGENCY:''"
      by blast
    then obtain pre where "v1_process_serial_data d s1 = Inr (v1_log_message (pre @ d) s1)"
      using v1_ERR_line [of d s1] v1_ERROR_line [of d s1] v1_EMERGENCY_line [of d s1]
      by cases blast+
    then show ?thesis
      using v1_log_text_log_message [of "pre @ d" s1] by blast
  qed
  have e3: "\<exists>t3. v3_handle_serial_message d s3 = Inr t3
                 \<and> v3_log_buffer t3 =
                     v3_log_buffer s3 @ [(stamp0 @ '' << '' @ d, None), (stamp1 @ '' '' @ d, Some ''error'')]
                 \<and> v3_log_text t3 =
                     (if hidden then v3_log_text s3
                      else v3_log_text s3 @
                           [(stamp0 @ '' << '' @ d @ newline, None),
                            (stamp1 @ '' '' @ d @ newline, Some ''error'')])
                 \<and> (hidden \<longrightarrow>
                      v3_debug_filter_var t3
                    \<and> v3_log_text (v3_refresh_log_display t3) = v3_log_text (v3_refresh_log_display s3)
                    \<and> \<not> v3_debug_filter_var (v3_click_debug_filter t3)
                    \<and> v3_log_text (v3_click_debug_filter t3) =
                        v3_log_text (v3_click_debug_filter s3) @
                        [(stamp0 @ '' << '' @ d @ newline, None),
                         (stamp1 @ '' '' @ d @ newline, Some ''error'')])"
    if err
  proof -
    define t3 where "t3 = v3_log_message d (Some ''error'') (v3_log_message (''<< '' @ d) None s3)"
    have h: "v3_handle_serial_message d s3 = Inr t3"
      unfolding t3_def using that assms(1) by (simp add: v3_error_line)
    have b: "v3_log_buffer t3 =
               v3_log_buffer s3 @ [(stamp0 @ '' << '' @ d, None), (stamp1 @ '' '' @ d, Some ''error'')]"
      unfolding t3_def assms(4,5) by (rule v3_error_buffer)
    have x: "v3_log_text t3 =
               (if hidden then v3_log_text s3
                else v3_log_text s3 @
                     [(stamp0 @ '' << '' @ d @ newline, None),
                      (stamp1 @ '' '' @ d @ newline, Some ''error'')])"
      unfolding t3_def assms(3,4,5) by (rule v3_error_text)
    have f: "v3_debug_filter_var t3 = v3_debug_filter_var s3"
      unfolding t3_def by (simp add: v3_log_message_buffer(4))
    have r: "v3_debug_filter_var t3
           \<and> v3_log_text (v3_refresh_log_display t3) = v3_log_text (v3_refresh_log_display s3)
           \<and> \<not> v3_debug_filter_var (v3_click_debug_filter t3)
           \<and> v3_log_text (v3_click_debug_filter t3) =
               v3_log_text (v3_click_debug_filter s3) @
               [(stamp0 @ '' << '' @ d @ newline, None),
                (stamp1 @ '' '' @ d @ newline, Some ''error'')]"
      if hidden
    proof -
      from that assms(3) have on: "v3_debug_filter_var s3" and c: "contains d ''DEBUG:''"
        by simp_all
      from v3_error_line_replayed [OF on c] f on show ?thesis
        unfolding t3_def assms(4,5) by (simp add: v3_click_buffer(4))
    qed
    from h b x r show ?thesis by blast
  qed
  have m3: "\<exists>t3. v3_handle_serial_message d s3 = Inr t3
                 \<and> v3_log_buffer t3 = v3_log_buffer s3 @ [(stamp0 @ '' << '' @ d, None)]
                 \<and> v3_log_text t3 =
                     (if hidden then v3_log_text s3
                      else v3_log_text s3 @ [(stamp0 @ '' << '' @ d @ newline, None)])
                 \<and> (hidden \<longrightarrow>
                      v3_debug_filter_var t3
                    \<and> v3_log_text (v3_refresh_log_display t3) = v3_log_text (v3_refresh_log_display s3)
                    \<and> \<not> v3_debug_filter_var (v3_click_debug_filter t3)
                    \<and> v3_log_text (v3_click_debug_filter t3) =
                        v3_log_text (v3_click_debug_filter s3) @
                        [(stamp0 @ '' << '' @ d @ newline, None)])"
    if emergency
  proof -
    define t3 where "t3 = v3_log_message (''<< '' @ d) None s3"
    have h: "v3_handle_serial_message d s3 = Inr t3"
      unfolding t3_def using that assms(2) by (simp add: v3_emergency_line)
    have b: "v3_log_buffer t3 = v3_log_buffer s3 @ [(stamp0 @ '' << '' @ d, None)]"
      unfolding t3_def assms(4) by (simp add: v3_log_message_buffer(1))
    have x: "v3_log_text t3 =
               (if hidden then v3_log_text s3
                else v3_log_text s3 @ [(stamp0 @ '' << '' @ d @ newline, None)])"
      unfolding t3_def assms(3,4) by (rule v3_incoming_text)
    have f: "v3_debug_filter_var t3 = v3_debug_filter_var s3"
      unfolding t3_def by (simp add: v3_log_message_buffer(4))
    have r: "v3_debug_filter_var t3
           \<and> v3_log_text (v3_refresh_log_display t3) = v3_log_text (v3_refresh_log_display s3)
           \<and> \<not> v3_debug_filter_var (v3_click_debug_filter t3)
           \<and> v3_log_text (v3_click_debug_filter t3) =
               v3_log_text (v3_click_debug_filter s3) @
               [(stamp0 @ '' << '' @ d @ newline, None)]"
      if hidden
    proof -
      from that assms(3) have on: "v3_debug_filter_var s3" and c: "contains d ''DEBUG:''"
        by simp_all
      from v3_incoming_line_replayed [OF on c] f on show ?thesis
        unfolding t3_def assms(4) by (simp add: v3_click_buffer(4))
    qed
    from h b x r show ?thesis by blast
  qed
  from v1 e3 m3 show ?thesis by blast
qed

text \<open>
  The line \<open>ERR: DEBUG: x\<close>: SOLAR_GUI.py shows it; SOLAR_GUI_V3.py, the filter being on,
  stores two entries and shows none, also when the log is redisplayed; the click that
  switches the filter off shows both.
\<close>

theorem error_lines_and_debug_filter_witness:
  "map_sum id v1_log_text (v1_process_serial_data ''ERR: DEBUG: x'' (v1_init noon))
     = Inr [''[12:00:00] '' @ mark_cross @ '' Error: ERR: DEBUG: x'' @ [CHR 0x0A]]
   \<and> map_sum id (\<lambda>st. (v3_log_text st, v3_log_buffer st))
       (v3_handle_serial_message ''ERR: DEBUG: x'' (v3_init noon))
     = Inr ([], [(''[12:00:00] << ERR: DEBUG: x'', None), (''[12:00:00] ERR: DEBUG: x'', Some ''error'')])
   \<and> map_sum id (\<lambda>st. v3_log_text (v3_refresh_log_display st))
       (v3_handle_serial_message ''ERR: DEBUG: x'' (v3_init noon))
     = Inr []
   \<and> map_sum id (\<lambda>st. v3_log_text (v3_click_debug_filter st))
       (v3_handle_serial_message ''ERR: DEBUG: x'' (v3_init noon))
     = Inr [(''[12:00:00] << ERR: DEBUG: x'' @ [CHR 0x0A], None),
            (''[12:00:00] ERR: DEBUG: x'' @ [CHR 0x0A], Some ''error'')]"
proof -
  have e: "(startswith ''ERR: DEBUG: x'' ''ERR:'' \<or> startswith ''ERR: DEBUG: x'' ''ERROR:'') = True"
    by simp
  have h: "(v3_debug_filter_var (v3_init noon) \<and> contains ''ERR: DEBUG: x'' ''DEBUG:'') = True"
    by (simp add: v3_init_fields)
  have i: "v3_log_text (v3_refresh_log_display (v3_init noon)) = []"
          "v3_log_text (v3_click_debug_filter (v3_init noon)) = []"
    by (simp_all add: v3_refresh_text v3_click_text v3_init_fields)
  note t = error_lines_and_debug_filter [OF e [symmetric] refl h [symmetric] refl refl,
      of "v1_init noon"]
  have "v1_process_serial_data ''ERR: DEBUG: x'' (v1_init noon) =
          Inr (v1_log_message ((mark_cross @ '' Error: '') @ ''ERR: DEBUG: x'') (v1_init noon))"
    by (rule v1_ERR_line) simp
  then have a: "map_sum id v1_log_text (v1_process_serial_data ''ERR: DEBUG: x'' (v1_init noon))
     = Inr [''[12:00:00] '' @ mark_cross @ '' Error: ERR: DEBUG: x'' @ [CHR 0x0A]]"
    by (simp add: v1_log_text_log_message v1_init_def noon_def strftime_noon newline_def)
  from t obtain t3 where
    b: "v3_handle_serial_message ''ERR: DEBUG: x'' (v3_init noon) = Inr t3"
       "v3_log_buffer t3 = [(''[12:00:00] << ERR: DEBUG: x'', None), (''[12:00:00] ERR: DEBUG: x'', Some ''error'')]"
       "v3_log_text t3 = []"
       "v3_log_text (v3_refresh_log_display t3) = []"
       "v3_log_text (v3_click_debug_filter t3) =
          [(''[12:00:00] << ERR: DEBUG: x'' @ [CHR 0x0A], None),
           (''[12:00:00] ERR: DEBUG: x'' @ [CHR 0x0A], Some ''error'')]"
    by (auto simp: i v3_init_fields noon_def strftime_noon newline_def)
  show ?thesis
    by (simp add: a b)
qed

text \<open>
  SOLAR_GUI_V3.py, the filter on: the error line \<open>ERR: DEBUG: x\<close> adds nothing to the
  visible log.
\<close>

theorem v3_error_line_hidden_counterexample:
  "startswith ''ERR: DEBUG: x'' ''ERR:''
   \<and> v3_debug_filter_var (v3_init noon)
   \<and> map_sum id v3_log_text (v3_handle_serial_message ''ERR: DEBUG: x'' (v3_init noon)) = Inr []"
  using v3_error_text [of "''ERR: DEBUG: x''" "v3_init noon"]
  by (simp add: v3_error_line v3_init_fields)

end
